theory Spec2Isabelle
  imports Main "HOL-Library.AList"
begin

section \<open>JavaScript values\<close>

text \<open>
  The module \<^verbatim>\<open>src/utils.js\<close> works on plain JavaScript objects that travel through
  \<^verbatim>\<open>JSON.stringify\<close> and \<^verbatim>\<open>JSON.parse\<close>. A value is a tree; an object is the list of its
  own properties in insertion order. A string is the list of its code units, each below 256.
  Numbers are the integers and NaN: the scores and timestamps of the module are integers, and
  a double represents every integer below \<open>2 ^ 53\<close> exactly.
\<close>

datatype jsnum = NaN | Num int

datatype jsval =
    JUndef
  | JNull
  | JBool bool
  | JNum jsnum
  | JStr string
  | JArr "jsval list"
  | JObj "(string \<times> jsval) list"

type_synonym obj = "(string \<times> jsval) list"

text \<open>An \<^verbatim>\<open>Error\<close> object is identified by its message.\<close>

type_synonym err = string

text \<open>What \<^verbatim>\<open>if (v)\<close>, \<^verbatim>\<open>!v\<close>, \<^verbatim>\<open>v || d\<close> and \<^verbatim>\<open>c ? a : b\<close> test.\<close>

fun truthy :: "jsval \<Rightarrow> bool" where
  "truthy JUndef = False"
| "truthy JNull = False"
| "truthy (JBool b) = b"
| "truthy (JNum NaN) = False"
| "truthy (JNum (Num n)) = (n \<noteq> 0)"
| "truthy (JStr s) = (s \<noteq> [])"
| "truthy (JArr xs) = True"
| "truthy (JObj ps) = True"

text \<open>\<^verbatim>\<open>o[k]\<close> on an object, own properties only: a missing property reads \<^verbatim>\<open>undefined\<close>.\<close>

definition obj_get :: "obj \<Rightarrow> string \<Rightarrow> jsval" where
  "obj_get ob k = (case map_of ob k of Some v \<Rightarrow> v | None \<Rightarrow> JUndef)"

text \<open>\<^verbatim>\<open>o[k] = v\<close>: an existing property keeps its place, a new one goes last.\<close>

definition obj_set :: "string \<Rightarrow> jsval \<Rightarrow> obj \<Rightarrow> obj" where
  "obj_set k v ob = AList.update k v ob"

subsection \<open>Numbers and their text\<close>

definition is_ws :: "char \<Rightarrow> bool" where
  "is_ws c = (of_char c \<in> {9, 10, 11, 12, 13, 32, 160 :: nat})"

definition digit_of :: "nat \<Rightarrow> char \<Rightarrow> nat option" where
  "digit_of R c =
     (let n = of_char c :: nat;
          d = (if 48 \<le> n \<and> n \<le> 57 then Some (n - 48)
               else if 97 \<le> n \<and> n \<le> 122 then Some (n - 87)
               else if 65 \<le> n \<and> n \<le> 90 then Some (n - 55)
               else None)
      in case d of Some v \<Rightarrow> (if v < R then Some v else None) | None \<Rightarrow> None)"

fun digits_value :: "nat \<Rightarrow> nat \<Rightarrow> string \<Rightarrow> nat" where
  "digits_value R acc [] = acc"
| "digits_value R acc (c # cs) =
     (case digit_of R c of Some v \<Rightarrow> digits_value R (acc * R + v) cs | None \<Rightarrow> acc)"

text \<open>
  \<^verbatim>\<open>parseInt(s)\<close> with no radix: leading white space is skipped, then an optional sign, then an
  optional \<^verbatim>\<open>0x\<close> that selects base 16, then the longest run of digits; no digit gives NaN.
\<close>

definition parseInt :: "string \<Rightarrow> jsnum" where
  "parseInt s =
     (let s1 = dropWhile is_ws s;
          neg = (case s1 of c # _ \<Rightarrow> c = CHR ''-'' | [] \<Rightarrow> False);
          s2 = (case s1 of c # cs \<Rightarrow> (if c = CHR ''-'' \<or> c = CHR ''+'' then cs else s1) | [] \<Rightarrow> s1);
          hex = (take 2 s2 = ''0x'' \<or> take 2 s2 = ''0X'');
          R = (if hex then 16 else 10);
          s3 = (if hex then drop 2 s2 else s2);
          z = takeWhile (\<lambda>c. digit_of R c \<noteq> None) s3
      in if z = [] then NaN
         else Num (if neg then - int (digits_value R 0 z) else int (digits_value R 0 z)))"

fun show_nat :: "nat \<Rightarrow> string" where
  "show_nat n =
     (if n < 10 then [''0123456789'' ! n]
      else show_nat (n div 10) @ [''0123456789'' ! (n mod 10)])"

declare show_nat.simps [simp del]

text \<open>A number in a template literal (the exponent form of \<open>10 ^ 21\<close> and above is left out).\<close>

fun number_to_string :: "jsnum \<Rightarrow> string" where
  "number_to_string NaN = ''NaN''"
| "number_to_string (Num n) = (if n < 0 then CHR ''-'' # show_nat (nat (- n)) else show_nat (nat n))"

fun num_add :: "jsnum \<Rightarrow> jsnum \<Rightarrow> jsnum" where
  "num_add (Num a) (Num b) = Num (a + b)"
| "num_add _ _ = NaN"

fun num_sub :: "jsnum \<Rightarrow> jsnum \<Rightarrow> jsnum" where
  "num_sub (Num a) (Num b) = Num (a - b)"
| "num_sub _ _ = NaN"

section \<open>The state of the process and of the cache\<close>

text \<open>
  A callback handed to \<^verbatim>\<open>setGroupProperty\<close> waits in a timer, so it is data: the default
  \<^verbatim>\<open>() => { }\<close>, or a caller's function, known by a number and observed when it is called.
\<close>

datatype callback = Default | Caller nat

text \<open>
  The closure of \<^verbatim>\<open>setTimeout\<close> in \<^verbatim>\<open>setGroupProperty\<close>: it holds the record by reference
  and the callback.
\<close>

datatype task = PersistProperty nat callback

text \<open>
  \<open>Called n err\<close>: the caller's callback \<open>n\<close> of \<^verbatim>\<open>setGroupProperty\<close> ran with \<open>err\<close>.
  \<open>ScoreCalled\<close>: a callback of \<^verbatim>\<open>updateScore\<close> that notes its arguments ran.
\<close>

datatype event =
    ConsoleLog string
  | ConsoleLogErr "err option"
  | ApiSendMessage jsval string "string option"
  | ApiChangeNickname "string option" string string
  | ApiMuteThread string
  | Called nat "err option"
  | ScoreCalled "err option" "bool option" "jsnum option"
  | Uncaught string

text \<open>
  \<^item> \<open>kv\<close>: the cache, key by key; a value is the content of the buffer that \<^verbatim>\<open>mem.get\<close> yields.
  \<^item> \<open>groups_blob\<close>: the value under the key \<^verbatim>\<open>groups\<close>. It is JSON text and is kept as the
    mapping it denotes (\<^verbatim>\<open>JSON.parse\<close> of \<^verbatim>\<open>JSON.stringify\<close>); \<open>None\<close> is the absent or empty value.
  \<^item> \<open>mem_outcomes\<close>: what the next cache operations answer, in order: \<open>None\<close> for success,
    \<open>Some e\<close> for the error \<open>e\<close>; an exhausted list means success.
  \<^item> \<open>lockedThreads\<close>: the module variable of that name.
  \<^item> \<open>heap\<close>, \<open>next_ref\<close>: the group records that are passed by reference.
  \<^item> \<open>timers\<close>: the pending \<^verbatim>\<open>setTimeout\<close> closures, oldest first (all have the same delay).
  \<^item> \<open>trace\<close>: what the process did to the outside, in order.
\<close>

record world =
  kv :: "string \<Rightarrow> string option"
  groups_blob :: "(string \<times> obj) list option"
  mem_outcomes :: "err option list"
  lockedThreads :: "jsval list"
  heap :: "nat \<Rightarrow> obj"
  next_ref :: nat
  timers :: "task list"
  trace :: "event list"

text \<open>The values of \<^verbatim>\<open>./config\<close> that the functions below read.\<close>

record config =
  bot_id :: string
  bot_long :: string
  bot_short :: "string option"
  owner_id :: string
  defaultTitle :: string
  dbFailSilently :: bool
  trigger :: string
  votePoints :: "int option"
  reminderTime :: int

definition next_outcome :: "world \<Rightarrow> err option \<times> world" where
  "next_outcome w =
     (case mem_outcomes w of
        [] \<Rightarrow> (None, w)
      | x # xs \<Rightarrow> (x, w\<lparr>mem_outcomes := xs\<rparr>))"

text \<open>
  The cache client \<^verbatim>\<open>mem\<close>: \<^verbatim>\<open>get\<close> calls back with \<^verbatim>\<open>(err, value)\<close>, \<^verbatim>\<open>set\<close> with
  \<^verbatim>\<open>(err, success)\<close>. A failed operation yields no value and stores nothing. Every callback of
  the cache and of the chat provider runs at once; only \<^verbatim>\<open>setTimeout\<close> defers.
\<close>

definition mem_get :: "string \<Rightarrow> (err option \<Rightarrow> string option \<Rightarrow> world \<Rightarrow> world) \<Rightarrow> world \<Rightarrow> world" where
  "mem_get key callback w =
     (case next_outcome w of
        (Some e, w') \<Rightarrow> callback (Some e) None w'
      | (None, w') \<Rightarrow> callback None (kv w' key) w')"

definition mem_set :: "string \<Rightarrow> string \<Rightarrow> (err option \<Rightarrow> bool \<Rightarrow> world \<Rightarrow> world) \<Rightarrow> world \<Rightarrow> world" where
  "mem_set key val callback w =
     (case next_outcome w of
        (Some e, w') \<Rightarrow> callback (Some e) False w'
      | (None, w') \<Rightarrow> callback None True (w'\<lparr>kv := (kv w')(key \<mapsto> val)\<rparr>))"

section \<open>The score ledger\<close>

definition setScore :: "string \<Rightarrow> string \<Rightarrow> (err option \<Rightarrow> bool \<Rightarrow> world \<Rightarrow> world) \<Rightarrow> world \<Rightarrow> world" where
  "setScore userId score callback = mem_set (''userscore_'' @ userId) score callback"

definition getScore :: "string \<Rightarrow> (err option \<Rightarrow> string option \<Rightarrow> world \<Rightarrow> world) \<Rightarrow> world \<Rightarrow> world" where
  "getScore userId callback = mem_get (''userscore_'' @ userId) callback"

text \<open>\<^verbatim>\<open>config.votePoints || 5\<close>\<close>

definition points_of :: "config \<Rightarrow> jsnum" where
  "points_of cfg = (case votePoints cfg of Some p \<Rightarrow> (if p = 0 then Num 5 else Num p) | None \<Rightarrow> Num 5)"

text \<open>
  The callback is called as \<^verbatim>\<open>callback(err)\<close> and as \<^verbatim>\<open>callback(err, success, newScore)\<close>;
  an argument that is not passed is \<open>None\<close>.
\<close>

definition updateScore ::
  "config \<Rightarrow> bool \<Rightarrow> string \<Rightarrow> (err option \<Rightarrow> bool option \<Rightarrow> jsnum option \<Rightarrow> world \<Rightarrow> world) \<Rightarrow> world \<Rightarrow> world" where
  "updateScore cfg isAdd userId callback =
     getScore userId (\<lambda>err val w.
       let w1 = (if err \<noteq> None then callback err None None w else w);
           score = (case val of Some v \<Rightarrow> parseInt v | None \<Rightarrow> Num 0);
           points = points_of cfg;
           newScore = (if isAdd then num_add score points else num_sub score points)
       in setScore userId (number_to_string newScore)
            (\<lambda>err success. callback err (Some success) (Some newScore)) w1)"

section \<open>The group record store\<close>

text \<open>
  What \<^verbatim>\<open>JSON.parse(JSON.stringify(v))\<close> gives back: a property whose value is \<^verbatim>\<open>undefined\<close> is
  dropped, \<^verbatim>\<open>undefined\<close> in an array and NaN become \<^verbatim>\<open>null\<close>. The order of the properties
  is kept (the ids of the provider are too long to be array indices).
\<close>

primrec json_clean :: "jsval \<Rightarrow> jsval" where
  "json_clean JUndef = JUndef"
| "json_clean JNull = JNull"
| "json_clean (JBool b) = JBool b"
| "json_clean (JNum n) = (if n = NaN then JNull else JNum n)"
| "json_clean (JStr s) = JStr s"
| "json_clean (JArr xs) = JArr (map (\<lambda>v. if v = JUndef then JNull else v) (map json_clean xs))"
| "json_clean (JObj ps) = JObj (filter (\<lambda>p. snd p \<noteq> JUndef) (map (map_prod id json_clean) ps))"

definition json_obj :: "obj \<Rightarrow> obj" where
  "json_obj ob = filter (\<lambda>p. snd p \<noteq> JUndef) (map (map_prod id json_clean) ob)"

definition join :: "string \<Rightarrow> string list \<Rightarrow> string" where
  "join sep xs = (case xs of [] \<Rightarrow> [] | y # ys \<Rightarrow> y @ concat (map (\<lambda>z. sep @ z) ys))"

text \<open>
  The property key that a value used as an index denotes (\<^verbatim>\<open>groupData[info.threadId]\<close>) and
  the text of a value in a template literal: a string is itself.
\<close>

primrec js_key :: "jsval \<Rightarrow> string" where
  "js_key JUndef = ''undefined''"
| "js_key JNull = ''null''"
| "js_key (JBool b) = (if b then ''true'' else ''false'')"
| "js_key (JNum n) = number_to_string n"
| "js_key (JStr s) = s"
| "js_key (JArr xs) =
     join '','' (map (\<lambda>p. if fst p = JUndef \<or> fst p = JNull then [] else snd p) (zip xs (map js_key xs)))"
| "js_key (JObj ps) = ''[object Object]''"

definition alloc :: "obj \<Rightarrow> world \<Rightarrow> nat \<times> world" where
  "alloc ob w = (next_ref w, w\<lparr>heap := (heap w)(next_ref w := ob), next_ref := Suc (next_ref w)\<rparr>)"

definition log :: "event \<Rightarrow> world \<Rightarrow> world" where
  "log e w = w\<lparr>trace := trace w @ [e]\<rparr>"

text \<open>\<^verbatim>\<open>mem.get("groups", ...)\<close> and \<^verbatim>\<open>mem.set("groups", JSON.stringify(groupData), {}, ...)\<close>\<close>

definition mem_get_groups ::
  "(err option \<Rightarrow> (string \<times> obj) list option \<Rightarrow> world \<Rightarrow> world) \<Rightarrow> world \<Rightarrow> world" where
  "mem_get_groups callback w =
     (case next_outcome w of
        (Some e, w') \<Rightarrow> callback (Some e) None w'
      | (None, w') \<Rightarrow> callback None (groups_blob w') w')"

definition mem_set_groups ::
  "(string \<times> obj) list \<Rightarrow> (err option \<Rightarrow> bool \<Rightarrow> world \<Rightarrow> world) \<Rightarrow> world \<Rightarrow> world" where
  "mem_set_groups groupData callback w =
     (case next_outcome w of
        (Some e, w') \<Rightarrow> callback (Some e) False w'
      | (None, w') \<Rightarrow> callback None True (w'\<lparr>groups_blob := Some (map (map_prod id json_obj) groupData)\<rparr>))"

text \<open>
  The callback is called as \<^verbatim>\<open>callback(err)\<close> or as \<^verbatim>\<open>callback(null, groupData)\<close>.
\<close>

definition getGroupData ::
  "(err option \<Rightarrow> (string \<times> obj) list option \<Rightarrow> world \<Rightarrow> world) \<Rightarrow> world \<Rightarrow> world" where
  "getGroupData callback =
     mem_get_groups (\<lambda>err groups.
       if err \<noteq> None then callback err None
       else callback None (Some (case groups of Some g \<Rightarrow> g | None \<Rightarrow> [])))"

text \<open>
  \<^verbatim>\<open>callback(err)\<close>, \<^verbatim>\<open>callback(null, group)\<close> or \<^verbatim>\<open>callback()\<close>. The group comes out of
  \<^verbatim>\<open>JSON.parse\<close>, so it is a new object; the callback gets its reference. Reading a property of
  \<^verbatim>\<open>undefined\<close> throws a TypeError, which ends the run.
\<close>

definition getGroupInfo :: "string \<Rightarrow> (err option \<Rightarrow> nat option \<Rightarrow> world \<Rightarrow> world) \<Rightarrow> world \<Rightarrow> world" where
  "getGroupInfo threadId callback =
     getGroupData (\<lambda>err groupData w.
       if err \<noteq> None then callback err None w
       else (case groupData of
               None \<Rightarrow> log (Uncaught ''TypeError'') w
             | Some gd \<Rightarrow>
                 (case map_of gd threadId of
                    Some grp \<Rightarrow> (case alloc grp w of (r, w') \<Rightarrow> callback None (Some r) w')
                  | None \<Rightarrow> callback None None w)))"

definition threadId_of :: "world \<Rightarrow> nat \<Rightarrow> jsval" where
  "threadId_of w info = obj_get (heap w info) ''threadId''"

definition setGroupInfo :: "nat \<Rightarrow> (err option \<Rightarrow> world \<Rightarrow> world) \<Rightarrow> world \<Rightarrow> world" where
  "setGroupInfo info callback =
     getGroupData (\<lambda>err groupData w.
       if err = None then
         (case groupData of
            None \<Rightarrow> log (Uncaught ''TypeError'') w
          | Some gd \<Rightarrow>
              mem_set_groups (AList.update (js_key (threadId_of w info)) (heap w info) gd)
                (\<lambda>err success. callback (if success then None else err)) w)
       else w)"

section \<open>The group property updater\<close>

definition invoke :: "callback \<Rightarrow> err option \<Rightarrow> world \<Rightarrow> world" where
  "invoke cb err w = (case cb of Default \<Rightarrow> w | Caller n \<Rightarrow> log (Called n err) w)"

text \<open>
  Thread ids are strings; on strings \<^verbatim>\<open>includes\<close> and \<^verbatim>\<open>!=\<close> are equality of strings, and the
  model compares every value that way.
\<close>

definition setGroupProperty :: "string \<Rightarrow> jsval \<Rightarrow> nat \<Rightarrow> callback \<Rightarrow> world \<Rightarrow> world" where
  "setGroupProperty key val info callback w =
     (if threadId_of w info \<notin> set (lockedThreads w) then
        let w1 = w\<lparr>heap := (heap w)(info := obj_set key val (heap w info))\<rparr>;
            w2 = w1\<lparr>lockedThreads := lockedThreads w1 @ [threadId_of w1 info]\<rparr>
        in w2\<lparr>timers := timers w2 @ [PersistProperty info callback]\<rparr>
      else w)"

text \<open>The body of the closure that \<^verbatim>\<open>setGroupProperty\<close> gives to \<^verbatim>\<open>setTimeout\<close>.\<close>

definition persistProperty :: "nat \<Rightarrow> callback \<Rightarrow> world \<Rightarrow> world" where
  "persistProperty info callback =
     setGroupInfo info (\<lambda>err w.
       invoke callback err
         (w\<lparr>lockedThreads := filter (\<lambda>t. t \<noteq> threadId_of w info) (lockedThreads w)\<rparr>))"

text \<open>The settle interval of the oldest pending timer elapses.\<close>

definition run_timer :: "world \<Rightarrow> world" where
  "run_timer w =
     (case timers w of
        [] \<Rightarrow> w
      | PersistProperty info callback # ts \<Rightarrow> persistProperty info callback (w\<lparr>timers := ts\<rparr>))"

section \<open>The chat provider and the other modules\<close>

text \<open>
  The provider answers \<^verbatim>\<open>sendMessage\<close> with \<^verbatim>\<open>callback(err)\<close> or with
  \<^verbatim>\<open>callback(null, messageInfo)\<close>, or the call itself throws (no provider before the login).
  \<^verbatim>\<open>getThreadInfo\<close> and \<^verbatim>\<open>getUserInfo\<close> answer with a pair \<^verbatim>\<open>(err, data)\<close>.
\<close>

datatype send_outcome = Throws | Fails err | Sends obj

record thread_data =
  threadName :: "string option"
  emoji :: jsval
  imageSrc :: jsval
  color :: "string option"
  nicknames :: "obj option"
  adminIDs :: "obj list option"
  isGroup :: jsval
  participantIDs :: "string list"

record user =
  firstName :: string

text \<open>
  \<open>api_getUserInfo\<close> gives the users as the list of the properties of \<^verbatim>\<open>userData\<close>, in the
  order in which \<^verbatim>\<open>for (let id in userData)\<close> visits them.
\<close>

record api =
  api_sendMessage :: "jsval \<Rightarrow> string \<Rightarrow> string option \<Rightarrow> send_outcome"
  api_getThreadInfo :: "string \<Rightarrow> err option \<times> thread_data option"
  api_getUserInfo :: "string list \<Rightarrow> err option \<times> (string \<times> user) list"

text \<open>
  The bindings of the module: \<^verbatim>\<open>config\<close>, the provider \<^verbatim>\<open>gapi\<close>,
  \<^verbatim>\<open>getRegexFromMembers\<close> of \<^verbatim>\<open>./configutils\<close>, \<^verbatim>\<open>chrono.parseDate(at, now, {forwardDate: true})\<close>,
  \<^verbatim>\<open>toLocaleString\<close> of a date with the options of \<^verbatim>\<open>getPrettyDateString\<close>, and the clock
  \<^verbatim>\<open>new Date()\<close>. A date is the number of its milliseconds.
\<close>

record env =
  cfg :: config
  gapi :: api
  getRegexFromMembers :: "jsval list \<Rightarrow> jsval"
  parseDate :: "string \<Rightarrow> int \<Rightarrow> int option"
  toLocaleString :: "int \<Rightarrow> string"
  now :: int

section \<open>Sending messages\<close>

text \<open>
  After the provider has answered, the wrapper reads the stored record of the thread and asks
  for its \<^verbatim>\<open>lastBotMessageID\<close> to be updated.
\<close>

definition sendMessage ::
  "api \<Rightarrow> jsval \<Rightarrow> string \<Rightarrow> (err option \<Rightarrow> obj option \<Rightarrow> world \<Rightarrow> world) \<Rightarrow> string option \<Rightarrow> world \<Rightarrow> world" where
  "sendMessage api m threadId callback replyId w =
     (if \<not> truthy m \<or> threadId = [] then
        callback (Some ''Must provide message and threadId.'') None w
      else
        (case api_sendMessage api m threadId replyId of
           Throws \<Rightarrow> callback None None (log (ConsoleLog (threadId @ '': '' @ js_key m)) w)
         | reply \<Rightarrow>
             (let err = (case reply of Fails e \<Rightarrow> Some e | _ \<Rightarrow> None);
                  minfo = (case reply of Sends mi \<Rightarrow> Some mi | _ \<Rightarrow> None)
              in getGroupInfo threadId (\<lambda>err info w'.
                   (case (minfo, info) of
                      (Some mi, Some i) \<Rightarrow>
                        (if err \<noteq> None then log (ConsoleLogErr err) w'
                         else setGroupProperty ''lastBotMessageID'' (obj_get mi ''messageID'') i Default w')
                    | _ \<Rightarrow> w'))
                   (callback err minfo (log (ApiSendMessage m threadId replyId) w)))))"

definition sendError :: "api \<Rightarrow> string \<Rightarrow> string \<Rightarrow> world \<Rightarrow> world" where
  "sendError api m threadId = sendMessage api (JStr (''Error: '' @ m)) threadId (\<lambda>_ _ w. w) None"

section \<open>The group info refresher\<close>

definition assign :: "(string \<times> jsval) list \<Rightarrow> obj \<Rightarrow> obj" where
  "assign ps info = fold (\<lambda>p. obj_set (fst p) (snd p)) ps info"

definition to_lower :: "char \<Rightarrow> char" where
  "to_lower c =
     (let n = of_char c :: nat
      in if (65 \<le> n \<and> n \<le> 90) \<or> (192 \<le> n \<and> n \<le> 222 \<and> n \<noteq> 215)
         then (case c of Char b0 b1 b2 b3 b4 b5 b6 b7 \<Rightarrow> Char b0 b1 b2 b3 b4 True b6 b7)
         else c)"

definition toLowerCase :: "string \<Rightarrow> string" where
  "toLowerCase s = map to_lower s"

definition trim :: "string \<Rightarrow> string" where
  "trim s = rev (dropWhile is_ws (rev (dropWhile is_ws s)))"

definition greeting :: "config \<Rightarrow> string" where
  "greeting c =
     ''Hello! I'm '' @ bot_long c
       @ (case bot_short c of
            Some s \<Rightarrow> (if s \<noteq> [] then '', but you can call me '' @ s else [])
          | None \<Rightarrow> [])
       @ ''. Give me a moment to collect some information about this chat before you use any commands.''"

text \<open>Lines 266 to 285: the record takes the answer of \<^verbatim>\<open>getThreadInfo\<close>.\<close>

definition mergeThreadData :: "config \<Rightarrow> string \<Rightarrow> jsval \<Rightarrow> thread_data \<Rightarrow> bool \<Rightarrow> obj \<Rightarrow> obj" where
  "mergeThreadData c threadId message d isNew info =
     (let info1 =
        assign
          [(''threadId'', JStr threadId),
           (''lastMessage'', message),
           (''name'', JStr (case threadName d of
                             Some n \<Rightarrow> (if n \<noteq> [] then n else defaultTitle c)
                           | None \<Rightarrow> defaultTitle c)),
           (''emoji'', emoji d),
           (''image'', imageSrc d),
           (''color'', (case color d of
                         Some x \<Rightarrow> (if x \<noteq> [] then JStr (''#'' @ x) else JNull)
                       | None \<Rightarrow> JNull)),
           (''nicknames'', (case nicknames d of
                             Some n \<Rightarrow> JObj (if truthy (obj_get n (bot_id c)) then AList.delete (bot_id c) n else n)
                           | None \<Rightarrow> JObj [])),
           (''admins'', (case adminIDs d of
                          Some a \<Rightarrow> JArr (map (\<lambda>u. obj_get u ''id'') a)
                        | None \<Rightarrow> JArr []))]
          info
      in if isNew then
           assign
             [(''muted'', JBool True),
              (''playlists'', JObj []),
              (''aliases'', JObj []),
              (''pinned'', JObj []),
              (''events'', JObj []),
              (''isGroup'', isGroup d)]
             info1
         else info1)"

text \<open>The loop of lines 290 to 295 over the users.\<close>

fun collectMembers :: "string \<Rightarrow> (string \<times> user) list \<Rightarrow> obj \<Rightarrow> obj \<Rightarrow> obj \<times> obj" where
  "collectMembers botId [] members names = (members, names)"
| "collectMembers botId ((uid, u) # rest) members names =
     (if uid \<noteq> botId then
        collectMembers botId rest
          (obj_set (toLowerCase (firstName u)) (JStr uid) members)
          (obj_set uid (JStr (firstName u)) names)
      else collectMembers botId rest members names)"

text \<open>
  Lines 288 to 308, run when \<^verbatim>\<open>getUserInfo\<close> gave no error. \<^verbatim>\<open>Object.keys(info.aliases)\<close>
  throws a TypeError when the record has no aliases; the data model makes \<open>aliases\<close> an
  object, and every other value is taken as that error. \<open>Inl\<close> is the record as the throw
  leaves it.
\<close>

definition refreshMembers :: "env \<Rightarrow> (string \<times> user) list \<Rightarrow> obj \<Rightarrow> obj + obj" where
  "refreshMembers e userData info =
     (case collectMembers (bot_id (cfg e)) userData [] [] of
        (members, names) \<Rightarrow>
          (let info1 = assign [(''members'', JObj members), (''names'', JObj names)] info
           in case obj_get info1 ''aliases'' of
                JObj al \<Rightarrow>
                  (let aliases = map (\<lambda>n. obj_get al n) (map fst al);
                       matches = map JStr (map fst members);
                       info2 = obj_set ''userRegExp'' (getRegexFromMembers e (matches @ aliases)) info1
                   in if obj_get info2 ''name'' = JStr (defaultTitle (cfg e)) then
                        (let joined = join ''/'' (map js_key (map (\<lambda>n. obj_get names n) (map fst names)))
                         in Inr (obj_set ''name'' (JStr (if joined \<noteq> [] then joined else ''Unnamed chat'')) info2))
                      else Inr info2)
              | _ \<Rightarrow> Inl info1))"

text \<open>The callback of \<^verbatim>\<open>getThreadInfo\<close> when it has data (lines 265 to 321).\<close>

definition threadInfoFound ::
  "env \<Rightarrow> api \<Rightarrow> string \<Rightarrow> jsval \<Rightarrow> (err option \<Rightarrow> nat option \<Rightarrow> world \<Rightarrow> world) \<Rightarrow>
     nat option \<Rightarrow> bool \<Rightarrow> thread_data \<Rightarrow> world \<Rightarrow> world" where
  "threadInfoFound e api threadId message callback existingInfo shouldSendMessage d w1 =
     (case (case existingInfo of Some r \<Rightarrow> (r, w1) | None \<Rightarrow> alloc [] w1) of
        (info, w2) \<Rightarrow>
          (let isNew = (existingInfo = None);
               w3 = w2\<lparr>heap := (heap w2)(info := mergeThreadData (cfg e) threadId message d isNew (heap w2 info))\<rparr>
           in case api_getUserInfo api (participantIDs d) of
                (uerr, userData) \<Rightarrow>
                  (case (if uerr = None then refreshMembers e userData (heap w3 info) else Inr (heap w3 info)) of
                     Inl partial \<Rightarrow> log (Uncaught ''TypeError'') (w3\<lparr>heap := (heap w3)(info := partial)\<rparr>)
                   | Inr merged \<Rightarrow>
                       (let w4 = w3\<lparr>heap := (heap w3)(info := merged)\<rparr>;
                            w5 = (if uerr = None \<and> isNew \<and> shouldSendMessage then
                                    sendMessage (gapi e)
                                      (JStr (''Bot added to new chat: \"'' @ js_key (obj_get merged ''name'') @ ''\".''))
                                      (owner_id (cfg e)) (\<lambda>_ _ w. w) None w4
                                  else w4)
                        in setGroupInfo info (\<lambda>err w.
                             callback err (Some info)
                               (if existingInfo = None \<and> shouldSendMessage then
                                  sendMessage (gapi e)
                                    (JStr (''All done! Use '' @ [CHR 0x27] @ trigger (cfg e) @ '' help''
                                           @ [CHR 0x27] @ '' to see what I can do.''))
                                    threadId (\<lambda>_ _ w. w) None w
                                else w)) w5))))"

definition updateGroupInfo ::
  "env \<Rightarrow> string \<Rightarrow> jsval \<Rightarrow> (err option \<Rightarrow> nat option \<Rightarrow> world \<Rightarrow> world) \<Rightarrow> api \<Rightarrow> world \<Rightarrow> world" where
  "updateGroupInfo e threadId message callback api =
     getGroupInfo threadId (\<lambda>err existingInfo.
       getGroupInfo (owner_id (cfg e)) (\<lambda>ownerErr ownerData w.
         if err = None \<and> ownerErr = None then
           (let shouldSendMessage = (\<not> dbFailSilently (cfg e) \<or> ownerData \<noteq> None);
                w1 = (if existingInfo = None then
                        log (ApiMuteThread threadId)
                          (if shouldSendMessage then
                             log (ApiChangeNickname (bot_short (cfg e)) threadId (bot_id (cfg e)))
                               (sendMessage (gapi e) (JStr (greeting (cfg e))) threadId (\<lambda>_ _ w. w) None w)
                           else w)
                      else w)
            in case api_getThreadInfo api threadId of
                 (terr, Some d) \<Rightarrow>
                   threadInfoFound e api threadId message callback existingInfo shouldSendMessage d w1
               | (terr, None) \<Rightarrow>
                   callback terr None
                     (log (ConsoleLogErr terr)
                        (log (ConsoleLog (''Error: Thread info not found for '' @ threadId)) w1)))
         else callback err None (log (ConsoleLogErr err) w)))"

section \<open>Events\<close>

definition getPrettyDateString :: "env \<Rightarrow> int \<Rightarrow> string" where
  "getPrettyDateString e date = toLocaleString e date"

definition eventCreatedText :: "env \<Rightarrow> string \<Rightarrow> string \<Rightarrow> string" where
  "eventCreatedText e title prettyTime =
     [CHR 0x0A] @ ''Event \"'' @ title @ ''\" created for '' @ prettyTime
       @ ''. To RSVP, upvote or downvote this message. To delete this event, use \"''
       @ trigger (cfg e) @ '' event delete '' @ title @ ''\" (only the owner can do this). ''
       @ [CHR 0x0A, CHR 0x0A] @ ''I'll remind you at the time of the event''"

text \<open>
  \<^verbatim>\<open>groupInfo.events[keyTitle]\<close> throws a TypeError when the record has no events; the data
  model makes \<open>events\<close> an object, and every other value is taken as that error.
\<close>

definition addEvent :: "env \<Rightarrow> string \<Rightarrow> string \<Rightarrow> jsval \<Rightarrow> nat \<Rightarrow> string \<Rightarrow> world \<Rightarrow> world" where
  "addEvent e title at sender groupInfo threadId w =
     (let keyTitle = toLowerCase (trim title)
      in case obj_get (heap w groupInfo) ''events'' of
           JObj events \<Rightarrow>
             (if truthy (obj_get events keyTitle) then
                sendError (gapi e)
                  (''An event already exists called \"'' @ title
                     @ ''\". Please delete it if you wish to make a new one.'')
                  threadId w
              else
                (case parseDate e at (now e) of
                   Some timestamp \<Rightarrow>
                     (let prettyTime = getPrettyDateString e timestamp;
                          early = timestamp - reminderTime (cfg e) * 60000;
                          earlyReminderTime = (if early \<le> now e then JNull else JNum (Num early));
                          msg = eventCreatedText e title prettyTime
                                  @ (if early \<le> now e then ''.''
                                     else '', and '' @ number_to_string (Num (reminderTime (cfg e)))
                                            @ '' minutes early.'')
                      in sendMessage (gapi e) (JStr msg) threadId
                           (\<lambda>err mid w'.
                              if err = None then
                                (case (mid, obj_get (heap w' groupInfo) ''events'') of
                                   (Some mi, JObj evs) \<Rightarrow>
                                     (let event = JObj
                                            [(''type'', JStr ''event''),
                                             (''title'', JStr title),
                                             (''key_title'', JStr keyTitle),
                                             (''timestamp'', JNum (Num timestamp)),
                                             (''owner'', sender),
                                             (''threadId'', JStr threadId),
                                             (''pretty_time'', JStr prettyTime),
                                             (''remind_time'', earlyReminderTime),
                                             (''mid'', obj_get mi ''messageID''),
                                             (''going'', JArr []),
                                             (''not_going'', JArr [])];
                                          evs' = JObj (obj_set keyTitle event evs);
                                          w'' = w'\<lparr>heap := (heap w')(groupInfo := obj_set ''events'' evs' (heap w' groupInfo))\<rparr>
                                      in setGroupProperty ''events'' evs' groupInfo Default w'')
                                 | _ \<Rightarrow> log (Uncaught ''TypeError'') w')
                              else w')
                           None w)
                 | None \<Rightarrow> sendError (gapi e) ''Couldn't understand that event's time.'' threadId w))
         | _ \<Rightarrow> log (Uncaught ''TypeError'') w)"

section \<open>What may happen to the lock list\<close>

text \<open>
  \<^verbatim>\<open>lockedThreads\<close> is read and written by \<^verbatim>\<open>setGroupProperty\<close> and by the closure of its
  timer only. A history of the module, as far as the lock list, the timers and the records go,
  is a list of
  \<^item> calls of \<^verbatim>\<open>setGroupProperty\<close> on a record that exists,
  \<^item> timers that fire,
  \<^item> changes of what the cache will answer,
  \<^item> writes \<^verbatim>\<open>info[key] = value\<close> to a record that exists, by any other code,
  \<^item> new records (out of \<^verbatim>\<open>JSON.parse\<close>, or \<^verbatim>\<open>{}\<close> with what is put into it before it
    is handed on),
  \<^item> writes of the group blob by any other code.
\<close>

datatype op =
    SetProperty string jsval nat callback
  | Fire
  | Outcomes "err option list"
  | Assign nat string jsval
  | New obj
  | Store "(string \<times> obj) list"

fun step :: "op \<Rightarrow> world \<Rightarrow> world" where
  "step (SetProperty key val info callback) w =
     (if info < next_ref w then setGroupProperty key val info callback w else w)"
| "step Fire w = run_timer w"
| "step (Outcomes xs) w = w\<lparr>mem_outcomes := xs\<rparr>"
| "step (Assign info key val) w =
     (if info < next_ref w then w\<lparr>heap := (heap w)(info := obj_set key val (heap w info))\<rparr> else w)"
| "step (New ob) w = snd (alloc ob w)"
| "step (Store groupData) w = w\<lparr>groups_blob := Some groupData\<rparr>"

definition run_ops :: "op list \<Rightarrow> world \<Rightarrow> world" where
  "run_ops ops w = fold step ops w"

fun task_ref :: "task \<Rightarrow> nat" where
  "task_ref (PersistProperty info callback) = info"

fun task_callback :: "task \<Rightarrow> callback" where
  "task_callback (PersistProperty info callback) = callback"

fun sets_threadId :: "op \<Rightarrow> bool" where
  "sets_threadId (SetProperty key val info callback) = (key = ''threadId'')"
| "sets_threadId (Assign info key val) = (key = ''threadId'')"
| "sets_threadId _ = False"

fun op_callback :: "op \<Rightarrow> callback" where
  "op_callback (SetProperty key val info callback) = callback"
| "op_callback _ = Default"

text \<open>
  The thread \<open>tid\<close> is locked, every pending timer holds a record that exists, none holds a
  record of that thread or the callback \<open>cb\<close>, and \<open>cb\<close> has not run.
\<close>

definition lock_inv :: "jsval \<Rightarrow> callback \<Rightarrow> world \<Rightarrow> bool" where
  "lock_inv tid cb w \<longleftrightarrow>
     tid \<in> set (lockedThreads w) \<and>
     (\<forall>t \<in> set (timers w).
        task_ref t < next_ref w \<and> threadId_of w (task_ref t) \<noteq> tid \<and>
        (cb \<noteq> Default \<longrightarrow> task_callback t \<noteq> cb)) \<and>
     (\<forall>n x. cb = Caller n \<longrightarrow> Called n x \<notin> set (trace w))"

text \<open>The mapping that \<^verbatim>\<open>getGroupData\<close> yields when the cache answers.\<close>

definition stored :: "world \<Rightarrow> (string \<times> obj) list" where
  "stored w = (case groups_blob w of Some g \<Rightarrow> g | None \<Rightarrow> [])"

text \<open>The first \<open>n\<close> operations of the cache succeed.\<close>

definition cache_answers :: "nat \<Rightarrow> world \<Rightarrow> bool" where
  "cache_answers n w \<longleftrightarrow> (\<forall>x \<in> set (take n (mem_outcomes w)). x = None)"

text \<open>
  The id \<open>b\<close> is absent from \<open>members\<close> (no name leads to it) and from \<open>names\<close> (it is no
  key there).
\<close>

definition bot_free :: "string \<Rightarrow> obj \<Rightarrow> bool" where
  "bot_free b info \<longleftrightarrow>
     (\<forall>members. obj_get info ''members'' = JObj members \<longrightarrow> JStr b \<notin> snd ` set members) \<and>
     (\<forall>names. obj_get info ''names'' = JObj names \<longrightarrow> b \<notin> fst ` set names)"

text \<open>The stored record of a thread; the empty object when there is none.\<close>

definition stored_record :: "world \<Rightarrow> string \<Rightarrow> obj" where
  "stored_record w threadId = (case map_of (stored w) threadId of Some r \<Rightarrow> r | None \<Rightarrow> [])"

text \<open>
  \<open>members\<close> and \<open>names\<close> of the record are made of the fetched users other than \<open>b\<close> and of
  nothing else: \<open>names\<close> leads from the id of such a user to the first name, \<open>members\<close> from
  the first name in lower case to the id, and where two users share a key the later one counts.
  So \<open>b\<close> is absent from both.
\<close>

definition rebuilt :: "string \<Rightarrow> (string \<times> user) list \<Rightarrow> obj \<Rightarrow> bool" where
  "rebuilt b userData rec \<longleftrightarrow>
     (\<exists>members names.
        obj_get rec ''members'' = JObj members \<and> obj_get rec ''names'' = JObj names \<and>
        map_of names
          = map_of (rev (map (\<lambda>p. (fst p, JStr (firstName (snd p))))
                           (filter (\<lambda>p. fst p \<noteq> b) userData))) \<and>
        map_of members
          = map_of (rev (map (\<lambda>p. (toLowerCase (firstName (snd p)), JStr (fst p)))
                           (filter (\<lambda>p. fst p \<noteq> b) userData))) \<and>
        JStr b \<notin> snd ` set members \<and> b \<notin> fst ` set names)"

text \<open>
  What holds of the record \<open>rec\<close> that a refresh hands to its callback, \<open>before\<close> being the
  stored record at the start. When the users were fetched, \<open>members\<close> and \<open>names\<close> are rebuilt
  from them without the bot, in the record and in its JSON form, which is what gets stored;
  when they were not, both are those of \<open>before\<close>. So the bot is absent from both when the
  users were fetched or when it was absent before. \<open>admins\<close> is the list of the admin ids of
  the provider.
\<close>

definition refresh_result ::
  "string \<Rightarrow> thread_data \<Rightarrow> err option \<Rightarrow> (string \<times> user) list \<Rightarrow> obj \<Rightarrow> obj \<Rightarrow> bool" where
  "refresh_result b d uerr userData before rec \<longleftrightarrow>
     (if uerr = None then rebuilt b userData rec \<and> rebuilt b userData (json_obj rec)
      else obj_get rec ''members'' = obj_get before ''members'' \<and>
           obj_get rec ''names'' = obj_get before ''names'') \<and>
     (uerr = None \<or> bot_free b before \<longrightarrow> bot_free b rec) \<and>
     obj_get rec ''admins''
       = (case adminIDs d of Some a \<Rightarrow> JArr (map (\<lambda>u. obj_get u ''id'') a) | None \<Rightarrow> JArr [])"

section \<open>Concrete states\<close>

definition world0 :: world where
  "world0 =
     \<lparr>kv = Map.empty, groups_blob = None, mem_outcomes = [], lockedThreads = [],
      heap = (\<lambda>_. []), next_ref = 0, timers = [], trace = []\<rparr>"

definition config0 :: config where
  "config0 =
     \<lparr>bot_id = ''100'', bot_long = ''Bot'', bot_short = Some ''B'', owner_id = ''900'',
      defaultTitle = ''Unnamed chat'', dbFailSilently = False, trigger = ''physics'',
      votePoints = None, reminderTime = 30\<rparr>"

text \<open>A callback for \<^verbatim>\<open>updateScore\<close> that notes its arguments.\<close>

definition noteScore :: "err option \<Rightarrow> bool option \<Rightarrow> jsnum option \<Rightarrow> world \<Rightarrow> world" where
  "noteScore err success newScore = log (ScoreCalled err success newScore)"

text \<open>A thread \<^verbatim>\<open>T\<close> with one event, stored in the cache and held by reference 0.\<close>

definition partyEvents :: obj where
  "partyEvents =
     [(''party'', JObj [(''type'', JStr ''event''), (''title'', JStr ''Party''), (''owner'', JStr ''7'')])]"

definition recT :: obj where
  "recT =
     [(''threadId'', JStr ''T''),
      (''name'', JStr ''Chess club''),
      (''aliases'', JObj []),
      (''events'', JObj partyEvents)]"

definition worldT :: world where
  "worldT = world0\<lparr>groups_blob := Some [(''T'', recT)], heap := (\<lambda>_. [])(0 := recT), next_ref := 1\<rparr>"

text \<open>
  A property update of thread \<^verbatim>\<open>T\<close> is pending, and the cache fails at its next operation.
\<close>

definition worldT_pending :: world where
  "worldT_pending =
     (setGroupProperty ''pinned'' (JObj [(''rules'', JStr ''be kind'')]) 0 (Caller 1) worldT)
       \<lparr>mem_outcomes := [Some ''timeout'']\<rparr>"

definition later_ops :: "op list" where
  "later_ops =
     [SetProperty ''pinned'' (JObj []) 0 (Caller 2), Fire, Outcomes [],
      New recT, Assign 1 ''pinned'' (JObj []),
      SetProperty ''lastBotMessageID'' (JStr ''m1'') 1 Default, Fire,
      Store [(''T'', recT)]]"

text \<open>A provider that sends every message and knows no thread.\<close>

definition api0 :: api where
  "api0 =
     \<lparr>api_sendMessage = (\<lambda>m t r. Sends [(''messageID'', JStr ''m1'')]),
      api_getThreadInfo = (\<lambda>t. (Some ''not found'', None)),
      api_getUserInfo = (\<lambda>ids. (None, []))\<rparr>"

definition env0 :: env where
  "env0 =
     \<lparr>cfg = config0, gapi = api0,
      getRegexFromMembers = (\<lambda>ns. JStr (''('' @ join ''|'' (map js_key ns) @ '')'')),
      parseDate = (\<lambda>at t. Some (t + 86400000)),
      toLocaleString = (\<lambda>t. ''tomorrow''),
      now = 1000\<rparr>"

text \<open>A callback for \<^verbatim>\<open>updateGroupInfo\<close> that notes its error argument.\<close>

definition noteRefresh :: "err option \<Rightarrow> nat option \<Rightarrow> world \<Rightarrow> world" where
  "noteRefresh err info = log (Called 3 err)"

text \<open>
  A provider for which the bot (id \<^verbatim>\<open>100\<close>) and user \<^verbatim>\<open>7\<close> are the participants and the
  admins of every thread.
\<close>

definition data1 :: thread_data where
  "data1 =
     \<lparr>threadName = Some ''Chess club'', emoji = JNull, imageSrc = JNull, color = None,
      nicknames = None,
      adminIDs = Some (map (\<lambda>i. [(''id'', JStr i)]) [''100'', ''7'']),
      isGroup = JBool True, participantIDs = [''100'', ''7'']\<rparr>"

definition api1 :: api where
  "api1 =
     \<lparr>api_sendMessage = (\<lambda>m t r. Sends [(''messageID'', JStr ''m1'')]),
      api_getThreadInfo = (\<lambda>t. (None, Some data1)),
      api_getUserInfo =
        (\<lambda>ids. (None, [(''100'', \<lparr>firstName = ''Bot''\<rparr>), (''7'', \<lparr>firstName = ''Ann''\<rparr>)]))\<rparr>"

text \<open>The same provider when the fetch of the users fails.\<close>

definition api2 :: api where
  "api2 = api1\<lparr>api_getUserInfo := (\<lambda>ids. (Some ''rate limited'', []))\<rparr>"

text \<open>A thread \<^verbatim>\<open>B\<close> whose stored record lists the bot as a member.\<close>

definition recB :: obj where
  "recB =
     [(''threadId'', JStr ''B''),
      (''name'', JStr ''Old chat''),
      (''members'', JObj [(''bot'', JStr ''100'')]),
      (''names'', JObj [(''100'', JStr ''Bot'')])]"

definition worldB :: world where
  "worldB = world0\<lparr>groups_blob := Some [(''B'', recB)]\<rparr>"

text \<open>The record of thread \<^verbatim>\<open>T\<close> after a refresh against that provider.\<close>

definition recT_refreshed :: obj where
  "recT_refreshed =
     [(''threadId'', JStr ''T''), (''name'', JStr ''Chess club''), (''aliases'', JObj []),
      (''events'', JObj partyEvents),
      (''lastMessage'', JNull), (''emoji'', JNull), (''image'', JNull), (''color'', JNull),
      (''nicknames'', JObj []),
      (''admins'', JArr [JStr ''100'', JStr ''7'']),
      (''members'', JObj [(''ann'', JStr ''7'')]),
      (''names'', JObj [(''7'', JStr ''Ann'')]),
      (''userRegExp'', JStr ''(ann)'')]"

section \<open>Properties of the score ledger\<close>

lemma next_outcome_nil: "mem_outcomes w = [] \<Longrightarrow> next_outcome w = (None, w)"
  by (simp add: next_outcome_def)

lemma next_outcome_Cons: "mem_outcomes w = x # xs \<Longrightarrow> next_outcome w = (x, w\<lparr>mem_outcomes := xs\<rparr>)"
  by (simp add: next_outcome_def)

text \<open>
  C8, as the code has it: the score of user \<open>U\<close> lives under the key \<^verbatim>\<open>userscore_<userId>\<close>.
  When the cache answers, \<^verbatim>\<open>setScore(U, s)\<close> writes \<open>s\<close> under \<open>''userscore_'' @ U\<close> and
  changes no other key, \<^verbatim>\<open>getScore(U)\<close> reads that key, and a read after the write yields \<open>s\<close>.
\<close>

theorem score_ledger_key:
  "mem_outcomes w = [] \<Longrightarrow>
     kv (setScore U s (\<lambda>_ _ w'. w') w) = (kv w)(''userscore_'' @ U \<mapsto> s) \<and>
     getScore U cb w = cb None (kv w (''userscore_'' @ U)) w \<and>
     getScore U cb (setScore U s (\<lambda>_ _ w'. w') w)
       = cb None (Some s) (setScore U s (\<lambda>_ _ w'. w') w)"
  by (simp add: setScore_def getScore_def mem_set_def mem_get_def next_outcome_def)

theorem score_ledger_key_witness:
  "mem_outcomes world0 = [] \<and>
   kv (setScore ''U1'' ''5'' (\<lambda>_ _ w'. w') world0) ''userscore_U1'' = Some ''5'' \<and>
   getScore ''U1'' (\<lambda>_ v. log (ConsoleLog (case v of Some x \<Rightarrow> x | None \<Rightarrow> [])))
       (setScore ''U1'' ''5'' (\<lambda>_ _ w'. w') world0)
     = log (ConsoleLog ''5'') (setScore ''U1'' ''5'' (\<lambda>_ _ w'. w') world0)"
  using score_ledger_key
    [of world0 "''U1''" "''5''" "\<lambda>_ v. log (ConsoleLog (case v of Some x \<Rightarrow> x | None \<Rightarrow> []))"]
  by (simp add: world0_def)

text \<open>
  C8, as the claim has it, fails: after \<^verbatim>\<open>setScore("U1", "5")\<close> on the empty cache the key
  \<^verbatim>\<open>score:U1\<close> is still absent, and the score is under \<^verbatim>\<open>userscore_U1\<close>.
\<close>

theorem score_key_counterexample:
  "kv (setScore ''U1'' ''5'' (\<lambda>_ _ w'. w') world0) ''score:U1'' = None \<and>
   kv (setScore ''U1'' ''5'' (\<lambda>_ _ w'. w') world0) ''userscore_U1'' = Some ''5''"
  by (simp add: setScore_def mem_set_def next_outcome_def world0_def)

text \<open>
  C6: with no \<^verbatim>\<open>votePoints\<close> in the configuration and a cache that answers,
  \<^verbatim>\<open>updateScore(true, "U1")\<close> on an absent score calls back with the new score 5 and stores
  \<^verbatim>\<open>"5"\<close>; on the stored score \<^verbatim>\<open>"5"\<close> it gives 10; \<^verbatim>\<open>updateScore(false, "U1")\<close> on the stored
  score \<^verbatim>\<open>"10"\<close> gives 5.
\<close>

theorem updateScore_default_points:
  "votePoints c = None \<Longrightarrow> mem_outcomes w = [] \<Longrightarrow>
   (kv w ''userscore_U1'' = None \<longrightarrow>
      updateScore c True ''U1'' cb w
        = cb None (Some True) (Some (Num 5)) (w\<lparr>kv := (kv w)(''userscore_U1'' \<mapsto> ''5'')\<rparr>)) \<and>
   (kv w ''userscore_U1'' = Some ''5'' \<longrightarrow>
      updateScore c True ''U1'' cb w
        = cb None (Some True) (Some (Num 10)) (w\<lparr>kv := (kv w)(''userscore_U1'' \<mapsto> ''10'')\<rparr>)) \<and>
   (kv w ''userscore_U1'' = Some ''10'' \<longrightarrow>
      updateScore c False ''U1'' cb w
        = cb None (Some True) (Some (Num 5)) (w\<lparr>kv := (kv w)(''userscore_U1'' \<mapsto> ''5'')\<rparr>))"
  by (simp add: updateScore_def setScore_def getScore_def mem_set_def mem_get_def next_outcome_def
        points_of_def show_nat.simps parseInt_def digit_of_def is_ws_def)

theorem updateScore_default_points_witness:
  "votePoints config0 = None \<and> mem_outcomes world0 = [] \<and> kv world0 ''userscore_U1'' = None \<and>
   trace (updateScore config0 False ''U1'' noteScore
           (updateScore config0 True ''U1'' noteScore
             (updateScore config0 True ''U1'' noteScore world0)))
     = [ScoreCalled None (Some True) (Some (Num 5)),
        ScoreCalled None (Some True) (Some (Num 10)),
        ScoreCalled None (Some True) (Some (Num 5))]"
proof -
  let ?w1 = "log (ScoreCalled None (Some True) (Some (Num 5)))
               (world0\<lparr>kv := (kv world0)(''userscore_U1'' \<mapsto> ''5'')\<rparr>)"
  let ?w2 = "log (ScoreCalled None (Some True) (Some (Num 10)))
               (?w1\<lparr>kv := (kv ?w1)(''userscore_U1'' \<mapsto> ''10'')\<rparr>)"
  let ?w3 = "log (ScoreCalled None (Some True) (Some (Num 5)))
               (?w2\<lparr>kv := (kv ?w2)(''userscore_U1'' \<mapsto> ''5'')\<rparr>)"
  have c: "votePoints config0 = None" by (simp add: config0_def)
  have s1: "updateScore config0 True ''U1'' noteScore world0 = ?w1"
    using updateScore_default_points [of config0 world0 noteScore] c
    by (simp add: world0_def noteScore_def)
  have s2: "updateScore config0 True ''U1'' noteScore ?w1 = ?w2"
    using updateScore_default_points [of config0 ?w1 noteScore] c
    by (simp add: world0_def noteScore_def log_def)
  have s3: "updateScore config0 False ''U1'' noteScore ?w2 = ?w3"
    using updateScore_default_points [of config0 ?w2 noteScore] c
    by (simp add: world0_def noteScore_def log_def)
  show ?thesis
    by (simp add: s1 s2 s3 c) (simp add: world0_def log_def)
qed

text \<open>The decimal text of an integer reads back as that integer.\<close>

lemma digit_char:
  "d < 10 \<Longrightarrow> digit_of 10 (''0123456789'' ! d) = Some d"
proof -
  assume "d < 10"
  then have "d \<in> {0,1,2,3,4,5,6,7,8,9}" by auto
  then show ?thesis by (auto simp: digit_of_def)
qed

lemma decimal_char:
  "d < 10 \<Longrightarrow>
     \<not> is_ws (''0123456789'' ! d) \<and> ''0123456789'' ! d \<noteq> CHR ''-'' \<and> ''0123456789'' ! d \<noteq> CHR ''+'' \<and>
     ''0123456789'' ! d \<noteq> CHR ''x'' \<and> ''0123456789'' ! d \<noteq> CHR ''X''"
proof -
  assume "d < 10"
  then have "d \<in> {0,1,2,3,4,5,6,7,8,9}" by auto
  then show ?thesis by (auto simp: is_ws_def)
qed

lemma show_nat_digits: "c \<in> set (show_nat n) \<Longrightarrow> \<exists>d<10. c = ''0123456789'' ! d"
proof (induction n rule: show_nat.induct)
  case (1 n)
  show ?case
  proof (cases "n < 10")
    case True
    with 1(2) have "c = ''0123456789'' ! n"
      by (subst (asm) show_nat.simps) (simp del: nth_Cons_numeral)
    with True show ?thesis by blast
  next
    case False
    with 1(2) have "c \<in> set (show_nat (n div 10)) \<or> c = ''0123456789'' ! (n mod 10)"
      by (subst (asm) show_nat.simps) (auto simp del: nth_Cons_numeral)
    moreover have "n mod 10 < 10" by simp
    ultimately show ?thesis using 1(1) [OF False] by blast
  qed
qed

lemma show_nat_nonempty: "show_nat n \<noteq> []"
  by (subst show_nat.simps) simp

lemma digits_value_append:
  "\<forall>c \<in> set xs. digit_of R c \<noteq> None \<Longrightarrow>
     digits_value R acc (xs @ ys) = digits_value R (digits_value R acc xs) ys"
  by (induction xs arbitrary: acc) (auto split: option.splits)

lemma digits_value_show_nat: "digits_value 10 0 (show_nat n) = n"
proof (induction n rule: show_nat.induct)
  case (1 n)
  show ?case
  proof (cases "n < 10")
    case True
    then show ?thesis by (subst show_nat.simps) (simp add: digit_char del: nth_Cons_numeral)
  next
    case False
    have d: "\<forall>c \<in> set (show_nat (n div 10)). digit_of 10 c \<noteq> None"
      using show_nat_digits [of _ "n div 10"] digit_char by fastforce
    have "digits_value 10 0 (show_nat (n div 10) @ [''0123456789'' ! (n mod 10)]) = n"
      using 1 False by (simp add: digits_value_append [OF d] digit_char del: nth_Cons_numeral)
    with False show ?thesis by (subst show_nat.simps) simp
  qed
qed

lemma parseInt_decimal:
  assumes ne: "s \<noteq> []" and dec: "\<forall>c \<in> set s. \<exists>d<10. c = ''0123456789'' ! d"
  shows "parseInt s = Num (int (digits_value 10 0 s))"
    and "parseInt (CHR ''-'' # s) = Num (- int (digits_value 10 0 s))"
proof -
  obtain c cs where s: "s = c # cs" using ne by (cases s) auto
  have all: "\<forall>c \<in> set s. digit_of 10 c \<noteq> None \<and> \<not> is_ws c \<and> c \<noteq> CHR ''-'' \<and> c \<noteq> CHR ''+'' \<and>
               c \<noteq> CHR ''x'' \<and> c \<noteq> CHR ''X''"
    using dec digit_char decimal_char by fastforce
  have c: "\<not> is_ws c" "c \<noteq> CHR ''-''" "c \<noteq> CHR ''+''"
    using all by (simp_all add: s)
  have dw: "dropWhile is_ws s = s" using c by (simp add: s)
  have hex: "\<not> (take 2 s = ''0x'' \<or> take 2 s = ''0X'')"
  proof (cases cs)
    case Nil
    then show ?thesis by (simp add: s)
  next
    case (Cons c' cs')
    then have "c' \<noteq> CHR ''x'' \<and> c' \<noteq> CHR ''X''" using all by (simp add: s)
    then show ?thesis by (auto simp: s Cons)
  qed
  have tw: "takeWhile (\<lambda>c. digit_of 10 c \<noteq> None) s = s"
    using all by (simp add: takeWhile_eq_all_conv del: not_None_eq)
  have neg: "(case s of c # _ \<Rightarrow> c = CHR ''-'' | [] \<Rightarrow> False) = False"
    using c by (simp add: s)
  have s2: "(case s of c # cs \<Rightarrow> (if c = CHR ''-'' \<or> c = CHR ''+'' then cs else s) | [] \<Rightarrow> s) = s"
    using c by (simp add: s)
  have hexF: "(take 2 s = ''0x'' \<or> take 2 s = ''0X'') = False"
    using hex by simp
  show "parseInt s = Num (int (digits_value 10 0 s))"
    unfolding parseInt_def Let_def dw neg s2 hexF if_False tw using ne by simp
  have dw': "dropWhile is_ws (CHR ''-'' # s) = CHR ''-'' # s"
    by (simp add: is_ws_def)
  have neg': "(case CHR ''-'' # s of c # _ \<Rightarrow> c = CHR ''-'' | [] \<Rightarrow> False) = True"
    by simp
  have s2': "(case CHR ''-'' # s of
                c # cs \<Rightarrow> (if c = CHR ''-'' \<or> c = CHR ''+'' then cs else CHR ''-'' # s)
              | [] \<Rightarrow> CHR ''-'' # s) = s"
    by simp
  show "parseInt (CHR ''-'' # s) = Num (- int (digits_value 10 0 s))"
    unfolding parseInt_def Let_def dw' neg' s2' hexF if_False if_True tw using ne by simp
qed

lemma parseInt_number_to_string: "parseInt (number_to_string (Num n)) = Num n"
proof -
  have d: "\<forall>c \<in> set (show_nat m). \<exists>d<10. c = ''0123456789'' ! d" for m
    using show_nat_digits by blast
  show ?thesis
    using parseInt_decimal [OF show_nat_nonempty d]
    by (simp add: digits_value_show_nat)
qed

text \<open>
  C10: when the read of the current score fails with \<open>e\<close>, \<^verbatim>\<open>updateScore\<close> calls
  \<^verbatim>\<open>callback(e)\<close> and goes on. The points \<open>p\<close> are \<^verbatim>\<open>config.votePoints\<close>, or 5 when that is
  absent or 0. The score counts as 0, so the new score \<open>n\<close> is \<open>p\<close> when adding and \<open>- p\<close>
  when subtracting. Its decimal text (which reads back as \<open>n\<close>; \<^verbatim>\<open>"5"\<close> or \<^verbatim>\<open>"-5"\<close> with
  the default points) is written under the key of the user, and the callback runs a second
  time with the answer of the write and \<open>n\<close>: no error and success when the write succeeds,
  and then the text is stored; the error of the write otherwise, and then nothing is stored.
\<close>

theorem updateScore_read_failure:
  "mem_outcomes w = Some e # rest \<Longrightarrow>
   (let p = (case votePoints c of Some q \<Rightarrow> (if q = 0 then 5 else q) | None \<Rightarrow> 5);
        n = (if isAdd then p else - p);
        written = number_to_string (Num n);
        w1 = cb (Some e) None None (w\<lparr>mem_outcomes := rest\<rparr>)
    in parseInt written = Num n \<and>
       (votePoints c = None \<longrightarrow> written = (if isAdd then ''5'' else ''-5'')) \<and>
       updateScore c isAdd U cb w =
         (case mem_outcomes w1 of
            Some e2 # rest2 \<Rightarrow> cb (Some e2) (Some False) (Some (Num n)) (w1\<lparr>mem_outcomes := rest2\<rparr>)
          | None # rest2 \<Rightarrow>
              cb None (Some True) (Some (Num n))
                (w1\<lparr>mem_outcomes := rest2, kv := (kv w1)(''userscore_'' @ U \<mapsto> written)\<rparr>)
          | [] \<Rightarrow>
              cb None (Some True) (Some (Num n))
                (w1\<lparr>kv := (kv w1)(''userscore_'' @ U \<mapsto> written)\<rparr>)))"
proof -
  assume mo: "mem_outcomes w = Some e # rest"
  define p where "p = (case votePoints c of Some q \<Rightarrow> (if q = 0 then 5 else q) | None \<Rightarrow> 5)"
  define n where "n = (if isAdd then p else - p)"
  define w1 where "w1 = cb (Some e) None None (w\<lparr>mem_outcomes := rest\<rparr>)"
  have pts: "points_of c = Num p"
    by (simp add: points_of_def p_def split: option.splits)
  have run: "updateScore c isAdd U cb w =
               mem_set (''userscore_'' @ U) (number_to_string (Num n))
                 (\<lambda>err success. cb err (Some success) (Some (Num n))) w1"
    using mo
    by (simp add: updateScore_def setScore_def getScore_def mem_get_def next_outcome_def Let_def
          pts n_def w1_def)
  have wr: "mem_set (''userscore_'' @ U) (number_to_string (Num n))
                 (\<lambda>err success. cb err (Some success) (Some (Num n))) w1 =
         (case mem_outcomes w1 of
            Some e2 # rest2 \<Rightarrow> cb (Some e2) (Some False) (Some (Num n)) (w1\<lparr>mem_outcomes := rest2\<rparr>)
          | None # rest2 \<Rightarrow>
              cb None (Some True) (Some (Num n))
                (w1\<lparr>mem_outcomes := rest2, kv := (kv w1)(''userscore_'' @ U \<mapsto> number_to_string (Num n))\<rparr>)
          | [] \<Rightarrow>
              cb None (Some True) (Some (Num n))
                (w1\<lparr>kv := (kv w1)(''userscore_'' @ U \<mapsto> number_to_string (Num n))\<rparr>))"
    by (simp add: mem_set_def next_outcome_def split: list.splits option.splits)
  have tx: "votePoints c = None \<longrightarrow> number_to_string (Num n) = (if isAdd then ''5'' else ''-5'')"
    by (simp add: n_def p_def show_nat.simps)
  show ?thesis
    unfolding Let_def p_def [symmetric] n_def [symmetric] w1_def [symmetric]
    using run [unfolded wr] tx parseInt_number_to_string [of n]
    by (simp del: number_to_string.simps)
qed

theorem updateScore_read_failure_witness:
  "mem_outcomes (world0\<lparr>mem_outcomes := [Some ''timeout'']\<rparr>) = [Some ''timeout''] \<and>
   mem_outcomes (world0\<lparr>mem_outcomes := [Some ''timeout'', Some ''down'']\<rparr>) = [Some ''timeout'', Some ''down''] \<and>
   trace (updateScore config0 True ''U1'' noteScore (world0\<lparr>mem_outcomes := [Some ''timeout'']\<rparr>))
     = [ScoreCalled (Some ''timeout'') None None, ScoreCalled None (Some True) (Some (Num 5))] \<and>
   kv (updateScore config0 True ''U1'' noteScore (world0\<lparr>mem_outcomes := [Some ''timeout'']\<rparr>))
      ''userscore_U1'' = Some ''5'' \<and>
   trace (updateScore config0 False ''U1'' noteScore (world0\<lparr>mem_outcomes := [Some ''timeout'']\<rparr>))
     = [ScoreCalled (Some ''timeout'') None None, ScoreCalled None (Some True) (Some (Num (- 5)))] \<and>
   kv (updateScore config0 False ''U1'' noteScore (world0\<lparr>mem_outcomes := [Some ''timeout'']\<rparr>))
      ''userscore_U1'' = Some ''-5'' \<and>
   trace (updateScore (config0\<lparr>votePoints := Some 7\<rparr>) False ''U1'' noteScore
            (world0\<lparr>mem_outcomes := [Some ''timeout'']\<rparr>))
     = [ScoreCalled (Some ''timeout'') None None, ScoreCalled None (Some True) (Some (Num (- 7)))] \<and>
   kv (updateScore (config0\<lparr>votePoints := Some 7\<rparr>) False ''U1'' noteScore
            (world0\<lparr>mem_outcomes := [Some ''timeout'']\<rparr>))
      ''userscore_U1'' = Some ''-7'' \<and>
   trace (updateScore config0 True ''U1'' noteScore
            (world0\<lparr>mem_outcomes := [Some ''timeout'', Some ''down'']\<rparr>))
     = [ScoreCalled (Some ''timeout'') None None, ScoreCalled (Some ''down'') (Some False) (Some (Num 5))] \<and>
   kv (updateScore config0 True ''U1'' noteScore
            (world0\<lparr>mem_outcomes := [Some ''timeout'', Some ''down'']\<rparr>))
      ''userscore_U1'' = None"
proof -
  let ?w = "world0\<lparr>mem_outcomes := [Some ''timeout'']\<rparr>"
  let ?w2 = "world0\<lparr>mem_outcomes := [Some ''timeout'', Some ''down'']\<rparr>"
  have m: "mem_outcomes ?w = Some ''timeout'' # []" "mem_outcomes ?w2 = Some ''timeout'' # [Some ''down'']"
    by simp_all
  note a = updateScore_read_failure [OF m(1), of config0 True noteScore "''U1''", unfolded Let_def, THEN conjunct2, THEN conjunct2]
  note b = updateScore_read_failure [OF m(1), of config0 False noteScore "''U1''", unfolded Let_def, THEN conjunct2, THEN conjunct2]
  note c = updateScore_read_failure [OF m(1), of "config0\<lparr>votePoints := Some 7\<rparr>" False noteScore "''U1''", unfolded Let_def,
                   THEN conjunct2, THEN conjunct2]
  note d = updateScore_read_failure [OF m(2), of config0 True noteScore "''U1''", unfolded Let_def, THEN conjunct2, THEN conjunct2]
  show ?thesis
    unfolding a b c d
    by (simp add: world0_def config0_def noteScore_def log_def show_nat.simps)
qed

section \<open>Properties of the group property updater\<close>

lemma obj_get_set_other: "k \<noteq> k' \<Longrightarrow> obj_get (obj_set k v ob) k' = obj_get ob k'"
  by (simp add: obj_get_def obj_set_def update_conv')

lemma obj_get_set_same: "obj_get (obj_set k v ob) k = v"
  by (simp add: obj_get_def obj_set_def update_conv')

text \<open>
  C2: when the thread id of the record is in the lock list, \<^verbatim>\<open>setGroupProperty\<close> changes
  nothing: no field of the record, no stored value, no timer; the callback is kept nowhere, so
  whatever timers fire afterwards, the process goes on as if the call had not been made.
\<close>

theorem setGroupProperty_locked:
  "threadId_of w info \<in> set (lockedThreads w) \<Longrightarrow>
     setGroupProperty key val info cb w = w \<and>
     (run_timer ^^ n) (setGroupProperty key val info cb w) = (run_timer ^^ n) w"
  by (simp add: setGroupProperty_def)

theorem setGroupProperty_locked_witness:
  "threadId_of (worldT\<lparr>lockedThreads := [JStr ''T'']\<rparr>) 0
     \<in> set (lockedThreads (worldT\<lparr>lockedThreads := [JStr ''T'']\<rparr>)) \<and>
   setGroupProperty ''pinned'' (JObj []) 0 (Caller 1) (worldT\<lparr>lockedThreads := [JStr ''T'']\<rparr>)
     = worldT\<lparr>lockedThreads := [JStr ''T'']\<rparr>"
  using setGroupProperty_locked
    [of "worldT\<lparr>lockedThreads := [JStr ''T'']\<rparr>" 0 "''pinned''" "JObj []" "Caller 1" 0]
  by (simp add: worldT_def world0_def recT_def threadId_of_def obj_get_def)

lemma setGroupInfo_read_fails:
  "mem_outcomes w = Some e # rest \<Longrightarrow> setGroupInfo info cb w = w\<lparr>mem_outcomes := rest\<rparr>"
  by (simp add: setGroupInfo_def getGroupData_def mem_get_groups_def next_outcome_def)

lemma getGroupData_read_fails:
  "mem_outcomes w = Some e # rest \<Longrightarrow> getGroupData cb w = cb (Some e) None (w\<lparr>mem_outcomes := rest\<rparr>)"
  by (simp add: getGroupData_def mem_get_groups_def next_outcome_def)

lemma run_timer_read_fails:
  "timers w = PersistProperty info cb # ts \<Longrightarrow> mem_outcomes w = Some e # rest \<Longrightarrow>
     run_timer w = w\<lparr>timers := ts, mem_outcomes := rest\<rparr>"
  by (simp add: run_timer_def persistProperty_def setGroupInfo_read_fails)

text \<open>
  What the closure of the timer can do: it leaves the records and the other timers alone, it
  takes at most the thread of its record off the lock list, and it runs at most its own callback.
\<close>

lemma persistProperty_effect:
  "\<exists>w'. persistProperty i c w = w' \<and> heap w' = heap w \<and> timers w' = timers w \<and>
     next_ref w' = next_ref w \<and>
     (lockedThreads w' = lockedThreads w \<or>
      lockedThreads w' = filter (\<lambda>t. t \<noteq> threadId_of w i) (lockedThreads w)) \<and>
     (trace w' = trace w \<or> (\<exists>n x. c = Caller n \<and> trace w' = trace w @ [Called n x]))"
  by (cases c)
     (auto simp: persistProperty_def setGroupInfo_def getGroupData_def mem_get_groups_def
        mem_set_groups_def next_outcome_def invoke_def log_def threadId_of_def
        split: list.splits option.splits)

lemma lock_inv_step:
  assumes "lock_inv tid cb w" and "\<not> sets_threadId x" and "cb \<noteq> Default \<longrightarrow> op_callback x \<noteq> cb"
  shows "lock_inv tid cb (step x w)"
proof (cases x)
  case (SetProperty key val info callback)
  with assms show ?thesis
    by (auto simp: lock_inv_def setGroupProperty_def threadId_of_def obj_get_set_other Let_def)
next
  case Fire
  show ?thesis
  proof (cases "timers w")
    case Nil
    with Fire assms show ?thesis by (simp add: run_timer_def)
  next
    case (Cons t ts)
    obtain i c where t: "t = PersistProperty i c" by (cases t)
    let ?w0 = "w\<lparr>timers := ts\<rparr>"
    obtain w' where w': "persistProperty i c ?w0 = w'" "heap w' = heap ?w0" "timers w' = timers ?w0"
      "lockedThreads w' = lockedThreads ?w0 \<or>
       lockedThreads w' = filter (\<lambda>t. t \<noteq> threadId_of ?w0 i) (lockedThreads ?w0)"
      "trace w' = trace ?w0 \<or> (\<exists>n x. c = Caller n \<and> trace w' = trace ?w0 @ [Called n x])"
      "next_ref w' = next_ref ?w0"
      using persistProperty_effect [of i c ?w0] by blast
    have st: "step x w = w'" using Fire Cons t w'(1) by (simp add: run_timer_def)
    have ne: "threadId_of w i \<noteq> tid" "cb \<noteq> Default \<longrightarrow> c \<noteq> cb"
      using assms(1) Cons t by (auto simp: lock_inv_def)
    have "tid \<in> set (lockedThreads w')"
      using w'(4) assms(1) ne by (auto simp: lock_inv_def threadId_of_def)
    moreover have "\<forall>t \<in> set (timers w').
        task_ref t < next_ref w' \<and> threadId_of w' (task_ref t) \<noteq> tid \<and>
        (cb \<noteq> Default \<longrightarrow> task_callback t \<noteq> cb)"
      using w'(2,3,6) assms(1) Cons by (auto simp: lock_inv_def threadId_of_def)
    moreover have "\<forall>n x. cb = Caller n \<longrightarrow> Called n x \<notin> set (trace w')"
      using w'(5) assms(1) ne(2) by (auto simp: lock_inv_def)
    ultimately show ?thesis by (simp add: st lock_inv_def)
  qed
next
  case (Outcomes xs)
  with assms show ?thesis by (simp add: lock_inv_def threadId_of_def)
next
  case (Assign info key val)
  with assms show ?thesis
    by (auto simp: lock_inv_def threadId_of_def obj_get_set_other)
next
  case (New ob)
  with assms show ?thesis
    by (auto simp: lock_inv_def threadId_of_def alloc_def)
next
  case (Store groupData)
  with assms show ?thesis by (simp add: lock_inv_def threadId_of_def)
qed

lemma lock_inv_run_ops:
  "lock_inv tid cb w \<Longrightarrow>
   \<forall>x \<in> set ops. \<not> sets_threadId x \<and> (cb \<noteq> Default \<longrightarrow> op_callback x \<noteq> cb) \<Longrightarrow>
     lock_inv tid cb (run_ops ops w)"
  unfolding run_ops_def
  by (induction ops arbitrary: w) (simp_all add: lock_inv_step)

text \<open>
  C9: a property update of a locked thread is pending and the read of the group blob in its
  persist step fails. Then the timer ends there: its callback does not run, nothing is stored
  and the thread stays in the lock list. From then on, whatever the history of the module is
  (calls of \<^verbatim>\<open>setGroupProperty\<close>, timers that fire, answers of the cache, writes to records,
  new records, writes of the blob), as long as no property \<^verbatim>\<open>threadId\<close> is rewritten, the
  thread is still locked, the callback has still not run, and every call of
  \<^verbatim>\<open>setGroupProperty\<close> for a record of that thread changes nothing. The other pending timers are
  those of other threads and of other callbacks.
\<close>

theorem lock_never_released:
  assumes "timers w = PersistProperty info cb # ts"
      and "mem_outcomes w = Some e # rest"
      and "threadId_of w info \<in> set (lockedThreads w)"
      and "\<forall>t \<in> set ts. task_ref t < next_ref w \<and> threadId_of w (task_ref t) \<noteq> threadId_of w info
                        \<and> (cb \<noteq> Default \<longrightarrow> task_callback t \<noteq> cb)"
      and "\<forall>n x. cb = Caller n \<longrightarrow> Called n x \<notin> set (trace w)"
      and "\<forall>x \<in> set ops. \<not> sets_threadId x \<and> (cb \<noteq> Default \<longrightarrow> op_callback x \<noteq> cb)"
  shows "run_timer w = w\<lparr>timers := ts, mem_outcomes := rest\<rparr> \<and>
         threadId_of w info \<in> set (lockedThreads (run_ops ops (run_timer w))) \<and>
         (\<forall>n x. cb = Caller n \<longrightarrow> Called n x \<notin> set (trace (run_ops ops (run_timer w)))) \<and>
         (\<forall>key val i c. threadId_of (run_ops ops (run_timer w)) i = threadId_of w info \<longrightarrow>
            setGroupProperty key val i c (run_ops ops (run_timer w)) = run_ops ops (run_timer w))"
proof -
  let ?w1 = "w\<lparr>timers := ts, mem_outcomes := rest\<rparr>"
  have r: "run_timer w = ?w1"
    using assms(1,2) by (rule run_timer_read_fails)
  have "lock_inv (threadId_of w info) cb ?w1"
    using assms(3,4,5) by (simp add: lock_inv_def threadId_of_def)
  then have inv: "lock_inv (threadId_of w info) cb (run_ops ops ?w1)"
    using assms(6) by (rule lock_inv_run_ops)
  then have locked: "threadId_of w info \<in> set (lockedThreads (run_ops ops ?w1))"
    by (simp add: lock_inv_def)
  have "\<forall>key val i c. threadId_of (run_ops ops ?w1) i = threadId_of w info \<longrightarrow>
            setGroupProperty key val i c (run_ops ops ?w1) = run_ops ops ?w1"
    using locked by (simp add: setGroupProperty_def)
  with inv locked show ?thesis
    unfolding r by (simp add: lock_inv_def)
qed

lemma worldT_pending_eq:
  "worldT_pending =
     worldT\<lparr>mem_outcomes := [Some ''timeout''], lockedThreads := [JStr ''T''],
       heap := (heap worldT)(0 := obj_set ''pinned'' (JObj [(''rules'', JStr ''be kind'')]) recT),
       timers := [PersistProperty 0 (Caller 1)]\<rparr>"
  by (simp add: worldT_pending_def setGroupProperty_def worldT_def world0_def recT_def threadId_of_def
        obj_get_def obj_set_def)

theorem lock_never_released_witness:
  "timers worldT_pending = PersistProperty 0 (Caller 1) # [] \<and>
   mem_outcomes worldT_pending = Some ''timeout'' # [] \<and>
   threadId_of worldT_pending 0 = JStr ''T'' \<and>
   JStr ''T'' \<in> set (lockedThreads worldT_pending) \<and>
   list_all (\<lambda>x. \<not> sets_threadId x \<and> op_callback x \<noteq> Caller 1) later_ops \<and>
   JStr ''T'' \<in> set (lockedThreads (run_ops later_ops (run_timer worldT_pending))) \<and>
   (\<forall>x. Called 1 x \<notin> set (trace (run_ops later_ops (run_timer worldT_pending))))"
proof -
  have t: "threadId_of worldT_pending 0 = JStr ''T''"
    by (simp add: worldT_pending_eq threadId_of_def obj_get_def obj_set_def worldT_def world0_def
          recT_def)
  have h: "\<forall>x \<in> set later_ops.
             \<not> sets_threadId x \<and> (Caller 1 \<noteq> Default \<longrightarrow> op_callback x \<noteq> Caller 1)"
    by (simp add: later_ops_def)
  have "timers worldT_pending = PersistProperty 0 (Caller 1) # []"
       "mem_outcomes worldT_pending = Some ''timeout'' # []"
       "threadId_of worldT_pending 0 \<in> set (lockedThreads worldT_pending)"
       "\<forall>n x. Caller 1 = Caller n \<longrightarrow> Called n x \<notin> set (trace worldT_pending)"
    by (simp_all add: t) (simp_all add: worldT_pending_eq worldT_def world0_def)
  note pre = this
  have "JStr ''T'' \<in> set (lockedThreads (run_ops later_ops (run_timer worldT_pending))) \<and>
        (\<forall>x. Called 1 x \<notin> set (trace (run_ops later_ops (run_timer worldT_pending))))"
    using lock_never_released [OF pre(1,2,3) _ pre(4) h, THEN conjunct2] t by simp
  moreover have "list_all (\<lambda>x. \<not> sets_threadId x \<and> op_callback x \<noteq> Caller 1) later_ops"
    by (simp add: later_ops_def)
  ultimately show ?thesis using pre t by simp
qed

lemma setGroupInfo_ok:
  "mem_outcomes w = [] \<Longrightarrow>
   setGroupInfo info cb w =
     cb None (w\<lparr>groups_blob := Some (map (map_prod id json_obj)
                (AList.update (js_key (threadId_of w info)) (heap w info) (stored w)))\<rparr>)"
  by (simp add: setGroupInfo_def getGroupData_def mem_get_groups_def mem_set_groups_def next_outcome_def
        stored_def split: option.splits)

text \<open>
  When the cache answers, the update of an unlocked thread goes through: the property is set,
  and once the timer fires the whole record is stored under its thread id, the lock is gone
  and the callback runs with no error.
\<close>

lemma setGroupProperty_persists:
  assumes "threadId_of w info \<notin> set (lockedThreads w)" and "timers w = []"
      and "mem_outcomes w = []" and "key \<noteq> ''threadId''"
  shows "run_timer (setGroupProperty key val info cb w) =
           invoke cb None
             (w\<lparr>heap := (heap w)(info := obj_set key val (heap w info)),
                timers := [],
                groups_blob := Some (map (map_prod id json_obj)
                   (AList.update (js_key (threadId_of w info)) (obj_set key val (heap w info))
                      (stored w)))\<rparr>)"
proof -
  have f: "filter (\<lambda>t. t \<noteq> threadId_of w info) (lockedThreads w) = lockedThreads w"
    using assms(1) by (auto simp: filter_id_conv)
  show ?thesis
    using assms f
    by (simp add: setGroupProperty_def run_timer_def persistProperty_def setGroupInfo_ok Let_def
          threadId_of_def obj_get_set_other stored_def)
qed

text \<open>
  When the read succeeds and the write fails with \<open>e\<close>, the lock is gone as well and the
  callback runs with \<open>e\<close>; the stored blob is the old one.
\<close>

lemma setGroupProperty_write_fails:
  assumes "threadId_of w info \<notin> set (lockedThreads w)" and "timers w = []"
      and "mem_outcomes w = None # Some e # rest" and "key \<noteq> ''threadId''"
  shows "run_timer (setGroupProperty key val info cb w) =
           invoke cb (Some e)
             (w\<lparr>heap := (heap w)(info := obj_set key val (heap w info)),
                timers := [], mem_outcomes := rest\<rparr>)"
proof -
  have f: "filter (\<lambda>t. t \<noteq> threadId_of w info) (lockedThreads w) = lockedThreads w"
    using assms(1) by (auto simp: filter_id_conv)
  show ?thesis
    using assms f
    by (simp add: setGroupProperty_def run_timer_def persistProperty_def setGroupInfo_def
          getGroupData_def mem_get_groups_def mem_set_groups_def next_outcome_def Let_def
          threadId_of_def obj_get_set_other)
qed

text \<open>
  C3 at a failing input: thread \<^verbatim>\<open>T\<close> is not locked, \<^verbatim>\<open>setGroupProperty("pinned", ...)\<close> is
  called with the callback 1, and the cache fails when the timer fires. The thread stays locked,
  the callback has not run, no timer is left, and the stored blob is the old one.
\<close>

theorem setGroupProperty_read_failure_example:
  "threadId_of worldT 0 \<notin> set (lockedThreads worldT) \<and>
   lockedThreads (run_timer worldT_pending) = [JStr ''T''] \<and>
   trace (run_timer worldT_pending) = [] \<and>
   timers (run_timer worldT_pending) = [] \<and>
   groups_blob (run_timer worldT_pending) = groups_blob worldT"
  by (simp add: worldT_pending_eq run_timer_def persistProperty_def setGroupInfo_def getGroupData_def
        mem_get_groups_def next_outcome_def worldT_def world0_def)

text \<open>
  C5 at a failing input: the read of the group blob fails with \<^verbatim>\<open>timeout\<close>. \<^verbatim>\<open>setGroupInfo\<close>
  ends without calling its callback, where \<^verbatim>\<open>getGroupData\<close> hands the error to its own.
\<close>

theorem setGroupInfo_read_failure_example:
  "setGroupInfo 0 (invoke (Caller 1)) (worldT\<lparr>mem_outcomes := [Some ''timeout'']\<rparr>) = worldT \<and>
   getGroupData (\<lambda>err _. invoke (Caller 1) err) (worldT\<lparr>mem_outcomes := [Some ''timeout'']\<rparr>)
     = worldT\<lparr>trace := [Called 1 (Some ''timeout'')]\<rparr>"
  by (simp add: setGroupInfo_def getGroupData_def mem_get_groups_def next_outcome_def invoke_def log_def
        worldT_def world0_def)

section \<open>Properties of the message wrapper\<close>

lemma next_outcome_fields [simp]:
  "kv (snd (next_outcome w)) = kv w"
  "groups_blob (snd (next_outcome w)) = groups_blob w"
  "lockedThreads (snd (next_outcome w)) = lockedThreads w"
  "heap (snd (next_outcome w)) = heap w"
  "next_ref (snd (next_outcome w)) = next_ref w"
  "timers (snd (next_outcome w)) = timers w"
  "trace (snd (next_outcome w)) = trace w"
  by (simp_all add: next_outcome_def split: list.splits)

lemma fst_next_outcome: "fst (next_outcome w) = (case mem_outcomes w of [] \<Rightarrow> None | x # _ \<Rightarrow> x)"
  by (simp add: next_outcome_def split: list.splits)

lemma mem_outcomes_next_outcome [simp]: "mem_outcomes (snd (next_outcome w)) = tl (mem_outcomes w)"
  by (simp add: next_outcome_def split: list.splits)

lemma alloc_fields [simp]:
  "mem_outcomes (snd (alloc g w)) = mem_outcomes w"
  "groups_blob (snd (alloc g w)) = groups_blob w"
  "kv (snd (alloc g w)) = kv w"
  "timers (snd (alloc g w)) = timers w"
  "lockedThreads (snd (alloc g w)) = lockedThreads w"
  "trace (snd (alloc g w)) = trace w"
  "fst (alloc g w) = next_ref w"
  "next_ref (snd (alloc g w)) = Suc (next_ref w)"
  "heap (snd (alloc g w)) = (heap w)(next_ref w := g)"
  by (simp_all add: alloc_def)

lemma stored_alloc [simp]: "stored (snd (alloc g w)) = stored w"
  by (simp add: stored_def)

lemma stored_next_outcome [simp]: "stored (snd (next_outcome w)) = stored w"
  by (simp add: stored_def)

lemma stored_simps [simp]:
  "stored (w\<lparr>trace := t\<rparr>) = stored w"
  "stored (w\<lparr>heap := h\<rparr>) = stored w"
  "stored (w\<lparr>next_ref := n\<rparr>) = stored w"
  "stored (w\<lparr>timers := ts\<rparr>) = stored w"
  "stored (w\<lparr>lockedThreads := l\<rparr>) = stored w"
  "stored (w\<lparr>mem_outcomes := os\<rparr>) = stored w"
  by (simp_all add: stored_def)

lemma getGroupInfo_unfold:
  "getGroupInfo tid k w =
     (case fst (next_outcome w) of
        Some e \<Rightarrow> k (Some e) None (snd (next_outcome w))
      | None \<Rightarrow>
          (case map_of (stored w) tid of
             Some g \<Rightarrow> k None (Some (next_ref w)) (snd (alloc g (snd (next_outcome w))))
           | None \<Rightarrow> k None None (snd (next_outcome w))))"
  by (cases "mem_outcomes w"; cases "groups_blob w")
     (auto simp: getGroupInfo_def getGroupData_def mem_get_groups_def stored_def alloc_def next_outcome_def
      split: option.splits)

text \<open>
  What \<^verbatim>\<open>sendMessage\<close> with the default callback does: it stores nothing and leaves the
  records in use alone; at most it copies the stored record of the thread, sets its
  \<^verbatim>\<open>lastBotMessageID\<close> and arms a timer for it.
\<close>

lemma sendMessage_default_effect:
  "\<exists>w'. sendMessage api m tid (\<lambda>_ _ w. w) r w = w' \<and>
      groups_blob w' = groups_blob w \<and> kv w' = kv w \<and>
      (\<forall>a < next_ref w. heap w' a = heap w a) \<and> next_ref w \<le> next_ref w' \<and>
      (\<exists>pre. trace w' = trace w @ pre) \<and>
      (mem_outcomes w = [] \<longrightarrow> mem_outcomes w' = []) \<and>
      (tid \<noteq> [] \<and> truthy m \<and> api_sendMessage api m tid r \<noteq> Throws \<longrightarrow>
         trace w' = trace w @ [ApiSendMessage m tid r]) \<and>
      ((timers w' = timers w \<and> lockedThreads w' = lockedThreads w) \<or>
       (\<exists>mi rec. api_sendMessage api m tid r = Sends mi \<and> map_of (stored w) tid = Some rec \<and>
          timers w' = timers w @ [PersistProperty (next_ref w) Default] \<and>
          heap w' (next_ref w) = obj_set ''lastBotMessageID'' (obj_get mi ''messageID'') rec))"
  by (auto simp: sendMessage_def getGroupInfo_unfold alloc_def log_def setGroupProperty_def Let_def threadId_of_def
      split: send_outcome.splits option.splits)

lemma sendMessage_default_store [simp]:
  "groups_blob (sendMessage api m tid (\<lambda>_ _ w. w) r w) = groups_blob w"
  "kv (sendMessage api m tid (\<lambda>_ _ w. w) r w) = kv w"
  using sendMessage_default_effect [of api m tid r w] by auto

lemma sendMessage_default_unknown:
  assumes "map_of (stored w) tid = None"
  shows "timers (sendMessage api m tid (\<lambda>_ _ w. w) r w) = timers w"
    and "lockedThreads (sendMessage api m tid (\<lambda>_ _ w. w) r w) = lockedThreads w"
  using sendMessage_default_effect [of api m tid r w] assms by auto

lemma sendMessage_default_keeps:
  "\<exists>w'. sendMessage api m tid (\<lambda>_ _ w. w) r w = w' \<and> stored w' = stored w \<and>
     (\<forall>a < next_ref w. heap w' a = heap w a) \<and> next_ref w \<le> next_ref w' \<and>
     (mem_outcomes w = [] \<longrightarrow> mem_outcomes w' = [])"
  using sendMessage_default_effect [of api m tid r w] by (auto simp: stored_def)

lemma getGroupInfo_ok:
  "mem_outcomes w = [] \<Longrightarrow>
   getGroupInfo tid k w =
     (case map_of (stored w) tid of
        Some g \<Rightarrow> k None (Some (next_ref w)) (snd (alloc g w))
      | None \<Rightarrow> k None None w)"
  by (simp add: getGroupInfo_unfold fst_next_outcome next_outcome_nil split: option.splits)

section \<open>Properties of the group info refresher\<close>

text \<open>
  C4: when \<^verbatim>\<open>getThreadInfo\<close> gives no data, \<^verbatim>\<open>updateGroupInfo\<close> calls its callback once,
  without a record, and leaves the cache, the timers and the lock list as they were: nothing is
  written to the group record store and nothing is left pending. When the two reads of the
  stored records succeed, so that the provider is asked at all, the callback gets the error of
  the provider, and the last two things the process did before are the two log lines.
\<close>

theorem updateGroupInfo_no_thread_info:
  assumes "api_getThreadInfo api threadId = (terr, None)"
  shows "\<exists>err' w'. (\<forall>cb. updateGroupInfo e threadId message cb api w = cb err' None w') \<and>
           groups_blob w' = groups_blob w \<and> kv w' = kv w \<and> timers w' = timers w \<and>
           lockedThreads w' = lockedThreads w \<and>
           (cache_answers 2 w \<longrightarrow>
              err' = terr \<and> last (trace w') = ConsoleLogErr terr \<and>
              last (butlast (trace w')) = ConsoleLog (''Error: Thread info not found for '' @ threadId))"
proof -
  let ?err = "(case mem_outcomes w of
                 Some e1 # _ \<Rightarrow> Some e1
               | None # Some e2 # _ \<Rightarrow> None
               | _ \<Rightarrow> terr)"
  let ?w' = "updateGroupInfo e threadId message (\<lambda>_ _ w. w) api w"
  have run: "\<forall>cb. updateGroupInfo e threadId message cb api w = cb ?err None ?w'"
    using assms
    by (auto simp: updateGroupInfo_def getGroupInfo_unfold fst_next_outcome Let_def
          split: option.splits list.splits)
  have same: "groups_blob ?w' = groups_blob w \<and> kv ?w' = kv w \<and> timers ?w' = timers w \<and>
              lockedThreads ?w' = lockedThreads w"
    using assms
    by (auto simp: updateGroupInfo_def getGroupInfo_unfold log_def Let_def
          sendMessage_default_unknown split: option.splits)
  have logs: "cache_answers 2 w \<longrightarrow>
              ?err = terr \<and> last (trace ?w') = ConsoleLogErr terr \<and>
              last (butlast (trace ?w')) = ConsoleLog (''Error: Thread info not found for '' @ threadId)"
    using assms
    by (auto simp: updateGroupInfo_def getGroupInfo_unfold fst_next_outcome log_def Let_def
          butlast_append cache_answers_def split: option.splits list.splits)
  from run same logs show ?thesis by blast
qed

theorem updateGroupInfo_no_thread_info_witness:
  "api_getThreadInfo api0 ''T'' = (Some ''not found'', None) \<and> cache_answers 2 worldT \<and>
   groups_blob (updateGroupInfo env0 ''T'' JNull noteRefresh api0 worldT) = groups_blob worldT \<and>
   timers (updateGroupInfo env0 ''T'' JNull noteRefresh api0 worldT) = [] \<and>
   trace (updateGroupInfo env0 ''T'' JNull noteRefresh api0 worldT)
     = [ConsoleLog ''Error: Thread info not found for T'', ConsoleLogErr (Some ''not found''),
        Called 3 (Some ''not found'')]"
proof -
  have a: "api_getThreadInfo api0 ''T'' = (Some ''not found'', None)"
    by (simp add: api0_def)
  have c: "cache_answers 2 worldT"
    by (simp add: cache_answers_def worldT_def world0_def)
  obtain err' w' where r:
    "\<forall>cb. updateGroupInfo env0 ''T'' JNull cb api0 worldT = cb err' None w'"
    "groups_blob w' = groups_blob worldT" "timers w' = timers worldT"
    "cache_answers 2 worldT \<longrightarrow> err' = Some ''not found'' \<and> last (trace w') = ConsoleLogErr (Some ''not found'') \<and>
       last (butlast (trace w')) = ConsoleLog (''Error: Thread info not found for '' @ ''T'')"
    using updateGroupInfo_no_thread_info [OF a, of env0 JNull worldT] by blast
  have t: "trace (updateGroupInfo env0 ''T'' JNull noteRefresh api0 worldT)
     = [ConsoleLog ''Error: Thread info not found for T'', ConsoleLogErr (Some ''not found''),
        Called 3 (Some ''not found'')]"
    by (simp add: updateGroupInfo_def getGroupInfo_unfold fst_next_outcome stored_def worldT_def world0_def
          env0_def config0_def api0_def noteRefresh_def log_def Let_def)
  from r a c t show ?thesis
    by (simp add: noteRefresh_def log_def worldT_def world0_def)
qed

lemma assign_Cons: "assign (p # ps) info = assign ps (obj_set (fst p) (snd p) info)"
  by (simp add: assign_def)

lemma obj_get_assign:
  "obj_get (assign ps info) k = (case map_of (rev ps) k of Some v \<Rightarrow> v | None \<Rightarrow> obj_get info k)"
proof (induction ps arbitrary: info)
  case Nil
  show ?case by (simp add: assign_def)
next
  case (Cons p ps)
  show ?case
    by (cases "map_of (rev ps) k"; cases "fst p = k")
       (auto simp: assign_Cons Cons.IH map_add_def obj_get_set_same obj_get_set_other)
qed

lemma set_obj_set: "p \<in> set (obj_set k v ob) \<Longrightarrow> p = (k, v) \<or> p \<in> set ob"
  unfolding obj_set_def
  by (induction ob) (auto split: if_splits)

lemma collectMembers_no_bot:
  "collectMembers b us m n = (m', n') \<Longrightarrow> JStr b \<notin> snd ` set m \<Longrightarrow> b \<notin> fst ` set n \<Longrightarrow>
     JStr b \<notin> snd ` set m' \<and> b \<notin> fst ` set n'"
proof (induction b us m n rule: collectMembers.induct)
  case (1 botId members names)
  then show ?case by simp
next
  case (2 botId uid u rest members names)
  show ?case
  proof (cases "uid = botId")
    case True
    with 2 show ?thesis by simp
  next
    case False
    have a: "JStr botId \<notin> snd ` set (obj_set (toLowerCase (firstName u)) (JStr uid) members)"
      using False "2.prems"(2) set_obj_set by fastforce
    have b: "botId \<notin> fst ` set (obj_set uid (JStr (firstName u)) names)"
      using False "2.prems"(3) set_obj_set by fastforce
    from "2.IH"(1) [OF False _ a b] "2.prems"(1) False show ?thesis by simp
  qed
qed

lemma refreshMembers_ok:
  assumes "obj_get info ''aliases'' = JObj al"
  shows "\<exists>r members names. refreshMembers e userData info = Inr r \<and>
           collectMembers (bot_id (cfg e)) userData [] [] = (members, names) \<and>
           obj_get r ''members'' = JObj members \<and> obj_get r ''names'' = JObj names \<and>
           obj_get r ''admins'' = obj_get info ''admins'' \<and>
           obj_get r ''threadId'' = obj_get info ''threadId''"
proof -
  obtain members names where c: "collectMembers (bot_id (cfg e)) userData [] [] = (members, names)"
    by (cases "collectMembers (bot_id (cfg e)) userData [] []")
  have al: "obj_get (assign [(''members'', JObj members), (''names'', JObj names)] info) ''aliases'' = JObj al"
    using assms by (simp add: obj_get_assign)
  show ?thesis
    using c al
    by (simp add: refreshMembers_def Let_def obj_get_set_other obj_get_assign)
qed

lemma mergeThreadData_fields:
  "obj_get (mergeThreadData c tid msg d isNew info) ''threadId'' = JStr tid"
  "obj_get (mergeThreadData c tid msg d isNew info) ''admins''
     = (case adminIDs d of Some a \<Rightarrow> JArr (map (\<lambda>u. obj_get u ''id'') a) | None \<Rightarrow> JArr [])"
  "obj_get (mergeThreadData c tid msg d isNew info) ''aliases''
     = (if isNew then JObj [] else obj_get info ''aliases'')"
  "obj_get (mergeThreadData c tid msg d isNew info) ''members'' = obj_get info ''members''"
  "obj_get (mergeThreadData c tid msg d isNew info) ''names'' = obj_get info ''names''"
  by (simp_all add: mergeThreadData_def Let_def obj_get_assign)

lemma map_of_map_prod: "map_of (map (map_prod id f) al) k = map_option f (map_of al k)"
  by (induction al) auto

lemma setGroupInfo_cases:
  "(\<exists>w1. \<forall>cb. setGroupInfo info cb w = w1) \<or>
   (\<exists>err w1. (\<forall>cb. setGroupInfo info cb w = cb err w1) \<and> heap w1 = heap w \<and> next_ref w1 = next_ref w \<and>
      (err = None \<longrightarrow>
         stored w1 = map (map_prod id json_obj)
                       (AList.update (js_key (threadId_of w info)) (heap w info) (stored w))))"
proof (cases "fst (next_outcome w)")
  case (Some e)
  then have "\<forall>cb. setGroupInfo info cb w = snd (next_outcome w)"
    by (cases "mem_outcomes w")
       (auto simp: setGroupInfo_def getGroupData_def mem_get_groups_def next_outcome_def)
  then show ?thesis by blast
next
  case None
  let ?w0 = "snd (next_outcome w)"
  let ?gd = "AList.update (js_key (threadId_of w info)) (heap w info) (stored w)"
  have r: "setGroupInfo info cb w
        = mem_set_groups ?gd (\<lambda>err success. cb (if success then None else err)) ?w0" for cb
    using None
    by (cases "mem_outcomes w"; cases "groups_blob w")
       (auto simp: setGroupInfo_def getGroupData_def mem_get_groups_def next_outcome_def stored_def
          threadId_of_def)
  show ?thesis
  proof (cases "fst (next_outcome ?w0)")
    case None
    then have "\<forall>cb. setGroupInfo info cb w
        = cb None (snd (next_outcome ?w0)\<lparr>groups_blob := Some (map (map_prod id json_obj) ?gd)\<rparr>)"
      unfolding r
      by (cases "mem_outcomes ?w0") (auto simp: mem_set_groups_def next_outcome_def)
    moreover have "stored (snd (next_outcome ?w0)\<lparr>groups_blob := Some (map (map_prod id json_obj) ?gd)\<rparr>)
        = map (map_prod id json_obj) ?gd"
      by (simp add: stored_def)
    ultimately show ?thesis
      by (intro disjI2 exI [of _ None]
            exI [of _ "snd (next_outcome ?w0)\<lparr>groups_blob := Some (map (map_prod id json_obj) ?gd)\<rparr>"])
         simp
  next
    case (Some e)
    then have "\<forall>cb. setGroupInfo info cb w = cb (Some e) (snd (next_outcome ?w0))"
      unfolding r
      by (cases "mem_outcomes ?w0") (auto simp: mem_set_groups_def next_outcome_def)
    then show ?thesis
      by (intro disjI2 exI [of _ "Some e"] exI [of _ "snd (next_outcome ?w0)"]) simp
  qed
qed

lemma map_of_assign: "map_of (assign ps ob) = map_of ob ++ map_of (rev ps)"
proof (induction ps arbitrary: ob)
  case Nil
  show ?case by (simp add: assign_def)
next
  case (Cons p ps)
  show ?case
    by (rule ext) (auto simp: assign_Cons Cons.IH obj_set_def update_conv' map_add_def split: option.splits)
qed

lemma collectMembers_assign:
  "collectMembers b us m n =
     (assign (map (\<lambda>p. (toLowerCase (firstName (snd p)), JStr (fst p))) (filter (\<lambda>p. fst p \<noteq> b) us)) m,
      assign (map (\<lambda>p. (fst p, JStr (firstName (snd p)))) (filter (\<lambda>p. fst p \<noteq> b) us)) n)"
  by (induction b us m n rule: collectMembers.induct) (simp_all add: assign_Cons assign_def)

lemma collectMembers_rebuilt:
  assumes "collectMembers b userData [] [] = (members, names)"
      and "obj_get rec ''members'' = JObj members" and "obj_get rec ''names'' = JObj names"
  shows "rebuilt b userData rec"
proof -
  have "JStr b \<notin> snd ` set members \<and> b \<notin> fst ` set names"
    using collectMembers_no_bot [OF assms(1)] by simp
  moreover have "map_of names = map_of (rev (map (\<lambda>p. (fst p, JStr (firstName (snd p))))
                           (filter (\<lambda>p. fst p \<noteq> b) userData)))"
    "map_of members = map_of (rev (map (\<lambda>p. (toLowerCase (firstName (snd p)), JStr (fst p)))
                           (filter (\<lambda>p. fst p \<noteq> b) userData)))"
    using assms(1) map_of_assign [of _ "[]"] by (auto simp: collectMembers_assign)
  ultimately show ?thesis
    unfolding rebuilt_def using assms(2,3) by blast
qed

lemma refreshMembers_Inr:
  assumes "refreshMembers e userData info = Inr r"
  shows "rebuilt (bot_id (cfg e)) userData r \<and>
         obj_get r ''admins'' = obj_get info ''admins'' \<and>
         obj_get r ''threadId'' = obj_get info ''threadId''"
proof -
  obtain members names where c: "collectMembers (bot_id (cfg e)) userData [] [] = (members, names)"
    by (cases "collectMembers (bot_id (cfg e)) userData [] []")
  have "obj_get r ''members'' = JObj members \<and> obj_get r ''names'' = JObj names \<and>
        obj_get r ''admins'' = obj_get info ''admins'' \<and>
        obj_get r ''threadId'' = obj_get info ''threadId''"
    using assms c
    by (auto simp: refreshMembers_def Let_def obj_get_set_other obj_get_assign
          split: jsval.splits if_splits)
  with collectMembers_rebuilt [OF c] show ?thesis by blast
qed

lemma json_clean_JUndef: "json_clean v = JUndef \<longleftrightarrow> v = JUndef"
  by (cases v) auto

lemma obj_get_json_obj:
  "obj_get ob k \<noteq> JUndef \<Longrightarrow> obj_get (json_obj ob) k = json_clean (obj_get ob k)"
proof (induction ob)
  case Nil
  then show ?case by (simp add: obj_get_def)
next
  case (Cons p ps)
  have j: "json_obj (p # ps)
             = (if snd p \<noteq> JUndef then (fst p, json_clean (snd p)) # json_obj ps else json_obj ps)"
    by (cases p) (simp add: json_obj_def json_clean_JUndef)
  show ?case
  proof (cases "fst p = k")
    case True
    with Cons.prems have "snd p \<noteq> JUndef" by (simp add: obj_get_def)
    with True show ?thesis by (simp add: j obj_get_def)
  next
    case False
    with Cons.prems have "obj_get ps k \<noteq> JUndef" by (simp add: obj_get_def)
    from Cons.IH [OF this] False show ?thesis by (simp add: j obj_get_def)
  qed
qed

lemma set_assign: "set (assign ps ob) \<subseteq> set ps \<union> set ob"
proof (induction ps arbitrary: ob)
  case Nil
  show ?case by (simp add: assign_def)
next
  case (Cons p ps)
  have "set (obj_set (fst p) (snd p) ob) \<subseteq> insert p (set ob)"
    using set_obj_set [of _ "fst p" "snd p" ob] by auto
  with Cons.IH [of "obj_set (fst p) (snd p) ob"] show ?case
    by (auto simp: assign_Cons)
qed

lemma json_clean_strings:
  assumes "\<forall>p \<in> set ps. \<exists>s. snd p = JStr s"
  shows "json_clean (JObj ps) = JObj ps"
proof -
  have "map (map_prod id json_clean) ps = ps"
    using assms by (intro map_idI) (auto simp: map_prod_def split: prod.splits)
  moreover have "filter (\<lambda>p. snd p \<noteq> JUndef) ps = ps"
    using assms by (intro filter_True) auto
  ultimately show ?thesis by simp
qed

lemma collectMembers_strings:
  assumes "collectMembers b userData [] [] = (members, names)"
  shows "json_clean (JObj members) = JObj members" "json_clean (JObj names) = JObj names"
proof -
  have "\<forall>p \<in> set members. \<exists>s. snd p = JStr s"
    using assms set_assign [of "map (\<lambda>p. (toLowerCase (firstName (snd p)), JStr (fst p)))
                                 (filter (\<lambda>p. fst p \<noteq> b) userData)" "[]"]
    by (auto simp: collectMembers_assign)
  then show "json_clean (JObj members) = JObj members" by (rule json_clean_strings)
  have "\<forall>p \<in> set names. \<exists>s. snd p = JStr s"
    using assms set_assign [of "map (\<lambda>p. (fst p, JStr (firstName (snd p))))
                                 (filter (\<lambda>p. fst p \<noteq> b) userData)" "[]"]
    by (auto simp: collectMembers_assign)
  then show "json_clean (JObj names) = JObj names" by (rule json_clean_strings)
qed

lemma refreshMembers_Inr_json:
  assumes "refreshMembers e userData info = Inr r"
  shows "rebuilt (bot_id (cfg e)) userData (json_obj r)"
proof -
  obtain members names where c: "collectMembers (bot_id (cfg e)) userData [] [] = (members, names)"
    by (cases "collectMembers (bot_id (cfg e)) userData [] []")
  have g: "obj_get r ''members'' = JObj members \<and> obj_get r ''names'' = JObj names"
    using assms c
    by (auto simp: refreshMembers_def Let_def obj_get_set_other obj_get_assign
          split: jsval.splits if_splits)
  have "obj_get (json_obj r) ''members'' = JObj members" "obj_get (json_obj r) ''names'' = JObj names"
    using g obj_get_json_obj [of r "''members''"] obj_get_json_obj [of r "''names''"]
      collectMembers_strings [OF c]
    by simp_all
  with collectMembers_rebuilt [OF c] show ?thesis by blast
qed

lemma rebuilt_bot_free: "rebuilt b userData rec \<Longrightarrow> bot_free b rec"
  by (auto simp: rebuilt_def bot_free_def)

lemma merged_result:
  assumes "(if uerr = None then refreshMembers e userData rec3 else Inr rec3) = Inr r"
      and "rec3 = mergeThreadData (cfg e) threadId message d isNew before"
  shows "refresh_result (bot_id (cfg e)) d uerr userData before r \<and>
         obj_get r ''threadId'' = JStr threadId"
proof (cases "uerr = None")
  case True
  with assms(1) have "refreshMembers e userData rec3 = Inr r" by simp
  from refreshMembers_Inr [OF this] refreshMembers_Inr_json [OF this]
    rebuilt_bot_free [of "bot_id (cfg e)" userData r]
  show ?thesis
    using True by (simp add: refresh_result_def assms(2) mergeThreadData_fields)
next
  case False
  with assms(1) have "r = rec3" by simp
  then show ?thesis
    using False by (auto simp: refresh_result_def assms(2) mergeThreadData_fields bot_free_def)
qed

lemma threadInfoFound_any:
  assumes ui: "api_getUserInfo api (participantIDs d) = (uerr, userData)"
    and ex: "case existingInfo of
               Some r \<Rightarrow> r < next_ref w1 \<and> heap w1 r = before
             | None \<Rightarrow> before = []"
  shows "(\<exists>w'. \<forall>cb. threadInfoFound e api threadId message cb existingInfo ssm d w1 = w') \<or>
         (\<exists>err info w'.
            (\<forall>cb. threadInfoFound e api threadId message cb existingInfo ssm d w1 = cb err (Some info) w') \<and>
            refresh_result (bot_id (cfg e)) d uerr userData before (heap w' info) \<and>
            (err = None \<longrightarrow> map_of (stored w') threadId = Some (json_obj (heap w' info))))"
proof -
  define p where "p = (case existingInfo of Some r \<Rightarrow> (r, w1) | None \<Rightarrow> alloc [] w1)"
  define info where "info = fst p"
  define w2 where "w2 = snd p"
  have p: "(case existingInfo of Some r \<Rightarrow> (r, w1) | None \<Rightarrow> alloc [] w1) = (info, w2)"
    by (simp add: p_def info_def w2_def)
  have w2: "info < next_ref w2" "heap w2 info = before"
    using ex by (auto simp: p_def info_def w2_def split: option.splits)
  define isNew where "isNew = (existingInfo = None)"
  define rec3 where "rec3 = mergeThreadData (cfg e) threadId message d isNew before"
  define w3 where "w3 = w2\<lparr>heap := (heap w2)(info := rec3)\<rparr>"
  define res where "res = (if uerr = None then refreshMembers e userData rec3 else Inr rec3)"
  show ?thesis
  proof (cases res)
    case (Inl partial)
    have "\<forall>cb. threadInfoFound e api threadId message cb existingInfo ssm d w1
            = log (Uncaught ''TypeError'') (w3\<lparr>heap := (heap w3)(info := partial)\<rparr>)"
      using ui Inl w2(2)
      unfolding res_def w3_def rec3_def isNew_def threadInfoFound_def p
      by (cases uerr; cases existingInfo) (simp_all add: Let_def)
    then show ?thesis by blast
  next
    case (Inr r)
    then have r0: "(if uerr = None then refreshMembers e userData rec3 else Inr rec3) = Inr r"
      by (simp add: res_def)
    from merged_result [OF r0 rec3_def] have r:
      "refresh_result (bot_id (cfg e)) d uerr userData before r"
      "obj_get r ''threadId'' = JStr threadId"
      by simp_all
    define w4 where "w4 = w3\<lparr>heap := (heap w3)(info := r)\<rparr>"
    have w4: "info < next_ref w4" "heap w4 info = r"
      using w2 by (simp_all add: w4_def w3_def)
    define w5 where "w5 = (if uerr = None \<and> isNew \<and> ssm then
                             sendMessage (gapi e)
                               (JStr (''Bot added to new chat: \"'' @ js_key (obj_get r ''name'') @ ''\".''))
                               (owner_id (cfg e)) (\<lambda>_ _ w. w) None w4
                           else w4)"
    have w5: "info < next_ref w5" "heap w5 info = r"
      using w4 sendMessage_default_keeps [of "gapi e"
          "JStr (''Bot added to new chat: \"'' @ js_key (obj_get r ''name'') @ ''\".'')"
          "owner_id (cfg e)" None w4]
      by (auto simp: w5_def)
    define final where "final = (\<lambda>w. if existingInfo = None \<and> ssm then
                             sendMessage (gapi e)
                               (JStr (''All done! Use '' @ [CHR 0x27] @ trigger (cfg e) @ '' help''
                                      @ [CHR 0x27] @ '' to see what I can do.''))
                               threadId (\<lambda>_ _ w. w) None w
                           else w)"
    have run: "threadInfoFound e api threadId message cb existingInfo ssm d w1
                 = setGroupInfo info (\<lambda>err w. cb err (Some info) (final w)) w5" for cb
      using ui r0 w2(2)
      unfolding final_def w5_def w4_def w3_def rec3_def isNew_def threadInfoFound_def p
      by (cases uerr; cases existingInfo; cases ssm) (simp_all add: Let_def)
    have tid: "js_key (threadId_of w5 info) = threadId"
      using w5(2) r(2) by (simp add: threadId_of_def)
    from setGroupInfo_cases [of info w5] show ?thesis
    proof
      assume "\<exists>wx. \<forall>cb. setGroupInfo info cb w5 = wx"
      then show ?thesis unfolding run by blast
    next
      assume "\<exists>err w6. (\<forall>cb. setGroupInfo info cb w5 = cb err w6) \<and> heap w6 = heap w5 \<and>
         next_ref w6 = next_ref w5 \<and>
         (err = None \<longrightarrow> stored w6 = map (map_prod id json_obj)
                         (AList.update (js_key (threadId_of w5 info)) (heap w5 info) (stored w5)))"
      then obtain err w6 where w6:
        "\<forall>cb. setGroupInfo info cb w5 = cb err w6" "heap w6 = heap w5" "next_ref w6 = next_ref w5"
        "err = None \<longrightarrow> stored w6 = map (map_prod id json_obj)
                         (AList.update threadId (heap w5 info) (stored w5))"
        unfolding tid by blast
      have f: "heap (final w6) info = r" "stored (final w6) = stored w6"
        using w5 w6(2,3) sendMessage_default_keeps [of "gapi e"
          "JStr (''All done! Use '' @ [CHR 0x27] @ trigger (cfg e) @ '' help''
                                      @ [CHR 0x27] @ '' to see what I can do.'')"
          threadId None w6]
        by (auto simp: final_def)
      have st: "err = None \<longrightarrow> map_of (stored (final w6)) threadId = Some (json_obj (heap (final w6) info))"
        using w6(4) w5(2) by (simp add: f map_of_map_prod update_conv')
      have "\<forall>cb. threadInfoFound e api threadId message cb existingInfo ssm d w1
                       = cb err (Some info) (final w6)"
        unfolding run using w6(1) by simp
      with r(1) st f(1) show ?thesis by metis
    qed
  qed
qed


lemma threadInfoFound_run:
  assumes mo: "mem_outcomes w1 = []"
    and ui: "api_getUserInfo api (participantIDs d) = (uerr, userData)"
    and ex: "case existingInfo of
               Some r \<Rightarrow> r < next_ref w1 \<and> heap w1 r = before
             | None \<Rightarrow> before = []"
    and al: "uerr = None \<and> existingInfo \<noteq> None \<longrightarrow> (\<exists>al. obj_get before ''aliases'' = JObj al)"
  shows "\<exists>info w'.
      (\<forall>cb. threadInfoFound e api threadId message cb existingInfo ssm d w1 = cb None (Some info) w') \<and>
      refresh_result (bot_id (cfg e)) d uerr userData before (heap w' info) \<and>
      map_of (stored w') threadId = Some (json_obj (heap w' info))"
proof -
  define p where "p = (case existingInfo of Some r \<Rightarrow> (r, w1) | None \<Rightarrow> alloc [] w1)"
  define info where "info = fst p"
  define w2 where "w2 = snd p"
  have p: "(case existingInfo of Some r \<Rightarrow> (r, w1) | None \<Rightarrow> alloc [] w1) = (info, w2)"
    by (simp add: p_def info_def w2_def)
  have w2: "mem_outcomes w2 = []" "info < next_ref w2" "stored w2 = stored w1" "heap w2 info = before"
    using mo ex by (auto simp: p_def info_def w2_def split: option.splits)
  define isNew where "isNew = (existingInfo = None)"
  define rec3 where "rec3 = mergeThreadData (cfg e) threadId message d isNew before"
  define w3 where "w3 = w2\<lparr>heap := (heap w2)(info := rec3)\<rparr>"
  have "\<exists>r. (if uerr = None then refreshMembers e userData rec3 else Inr rec3) = Inr r"
  proof (cases "uerr = None")
    case True
    have "\<exists>al. obj_get rec3 ''aliases'' = JObj al"
      using al True by (auto simp: rec3_def mergeThreadData_fields isNew_def)
    then obtain al where "obj_get rec3 ''aliases'' = JObj al" ..
    from refreshMembers_ok [OF this, of e userData] True show ?thesis by auto
  next
    case False
    then show ?thesis by auto
  qed
  then obtain r where r0: "(if uerr = None then refreshMembers e userData rec3 else Inr rec3) = Inr r" ..
  from merged_result [OF r0 rec3_def] have r:
    "refresh_result (bot_id (cfg e)) d uerr userData before r"
    "obj_get r ''threadId'' = JStr threadId"
    by simp_all
  define w4 where "w4 = w3\<lparr>heap := (heap w3)(info := r)\<rparr>"
  have w4: "mem_outcomes w4 = []" "info < next_ref w4" "heap w4 info = r" "stored w4 = stored w1"
    using w2 by (simp_all add: w4_def w3_def)
  define w5 where "w5 = (if uerr = None \<and> isNew \<and> ssm then
                           sendMessage (gapi e)
                             (JStr (''Bot added to new chat: \"'' @ js_key (obj_get r ''name'') @ ''\".''))
                             (owner_id (cfg e)) (\<lambda>_ _ w. w) None w4
                         else w4)"
  have w5: "mem_outcomes w5 = []" "info < next_ref w5" "heap w5 info = r"
    using w4 sendMessage_default_keeps [of "gapi e"
        "JStr (''Bot added to new chat: \"'' @ js_key (obj_get r ''name'') @ ''\".'')"
        "owner_id (cfg e)" None w4]
    by (auto simp: w5_def)
  define w6 where "w6 = w5\<lparr>groups_blob := Some (map (map_prod id json_obj)
                (AList.update (js_key (threadId_of w5 info)) (heap w5 info) (stored w5)))\<rparr>"
  have tid: "js_key (threadId_of w5 info) = threadId"
    using w5(3) r(2) by (simp add: threadId_of_def)
  have w6: "info < next_ref w6" "heap w6 info = r" "map_of (stored w6) threadId = Some (json_obj r)"
    using w5 by (simp_all add: w6_def tid stored_def map_of_map_prod update_conv')
  define w7 where "w7 = (if existingInfo = None \<and> ssm then
                           sendMessage (gapi e)
                             (JStr (''All done! Use '' @ [CHR 0x27] @ trigger (cfg e) @ '' help''
                                    @ [CHR 0x27] @ '' to see what I can do.''))
                             threadId (\<lambda>_ _ w. w) None w6
                         else w6)"
  have w7: "heap w7 info = r" "map_of (stored w7) threadId = Some (json_obj r)"
    using w6 sendMessage_default_keeps [of "gapi e"
        "JStr (''All done! Use '' @ [CHR 0x27] @ trigger (cfg e) @ '' help''
                                    @ [CHR 0x27] @ '' to see what I can do.'')"
        threadId None w6]
    by (auto simp: w7_def)
  have run: "\<forall>cb. threadInfoFound e api threadId message cb existingInfo ssm d w1 = cb None (Some info) w7"
    using ui r0 w5(1) w2(4)
    unfolding w7_def w6_def w5_def w4_def w3_def rec3_def isNew_def threadInfoFound_def p
    by (cases uerr; cases existingInfo; cases ssm)
       (simp_all add: Let_def setGroupInfo_ok)
  have "(\<forall>cb. threadInfoFound e api threadId message cb existingInfo ssm d w1 = cb None (Some info) w7) \<and>
      refresh_result (bot_id (cfg e)) d uerr userData before (heap w7 info) \<and>
      map_of (stored w7) threadId = Some (json_obj (heap w7 info))"
    using run w7 r(1) by simp
  then show ?thesis by blast
qed

lemma updateGroupInfo_run:
  assumes mo: "mem_outcomes w = []"
      and ti: "api_getThreadInfo api threadId = (terr, Some d)"
      and ui: "api_getUserInfo api (participantIDs d) = (uerr, userData)"
      and al: "\<forall>rec. uerr = None \<and> map_of (stored w) threadId = Some rec \<longrightarrow>
                 (\<exists>al. obj_get rec ''aliases'' = JObj al)"
  shows "\<exists>info w'.
           (\<forall>cb. updateGroupInfo e threadId message cb api w = cb None (Some info) w') \<and>
           refresh_result (bot_id (cfg e)) d uerr userData (stored_record w threadId) (heap w' info) \<and>
           map_of (stored w') threadId = Some (json_obj (heap w' info))"
proof -
  define existingInfo where
    "existingInfo = (case map_of (stored w) threadId of Some g \<Rightarrow> Some (next_ref w) | None \<Rightarrow> None)"
  define wa where
    "wa = (case map_of (stored w) threadId of Some g \<Rightarrow> snd (alloc g w) | None \<Rightarrow> w)"
  define ownerData where
    "ownerData = (case map_of (stored w) (owner_id (cfg e)) of Some g \<Rightarrow> Some (next_ref wa) | None \<Rightarrow> None)"
  define wb where
    "wb = (case map_of (stored w) (owner_id (cfg e)) of Some g \<Rightarrow> snd (alloc g wa) | None \<Rightarrow> wa)"
  define ssm where "ssm = (\<not> dbFailSilently (cfg e) \<or> ownerData \<noteq> None)"
  define w1 where
    "w1 = (if existingInfo = None then
             log (ApiMuteThread threadId)
               (if ssm then
                  log (ApiChangeNickname (bot_short (cfg e)) threadId (bot_id (cfg e)))
                    (sendMessage (gapi e) (JStr (greeting (cfg e))) threadId (\<lambda>_ _ w. w) None wb)
                else wb)
           else wb)"
  have wa: "mem_outcomes wa = []" "stored wa = stored w"
    using mo by (auto simp: wa_def split: option.splits)
  have wb: "mem_outcomes wb = []"
    using wa by (auto simp: wb_def split: option.splits)
  have unfold: "updateGroupInfo e threadId message cb api w
                  = threadInfoFound e api threadId message cb existingInfo ssm d w1" for cb
    using mo wa ti
    by (auto simp: updateGroupInfo_def getGroupInfo_ok Let_def existingInfo_def wa_def ownerData_def
          wb_def ssm_def w1_def split: option.splits)
  have m1: "mem_outcomes w1 = []"
    using wb sendMessage_default_keeps [of "gapi e" "JStr (greeting (cfg e))" threadId None wb]
    by (auto simp: w1_def log_def)
  have ex: "case existingInfo of
               Some r \<Rightarrow> r < next_ref w1 \<and> heap w1 r = stored_record w threadId
             | None \<Rightarrow> stored_record w threadId = []"
  proof (cases "map_of (stored w) threadId")
    case None
    then show ?thesis by (simp add: existingInfo_def stored_record_def)
  next
    case (Some g)
    then have "w1 = wb" "existingInfo = Some (next_ref w)"
      by (simp_all add: w1_def existingInfo_def)
    moreover have "next_ref w < next_ref wb \<and> heap wb (next_ref w) = g"
      using Some by (auto simp: wb_def wa_def split: option.splits)
    ultimately show ?thesis using Some by (simp add: stored_record_def)
  qed
  have al': "uerr = None \<and> existingInfo \<noteq> None \<longrightarrow> (\<exists>al. obj_get (stored_record w threadId) ''aliases'' = JObj al)"
    using al by (auto simp: existingInfo_def stored_record_def split: option.splits)
  from threadInfoFound_run [OF m1 ui ex al', of e threadId message ssm]
  show ?thesis unfolding unfold .
qed

lemma updateGroupInfo_any:
  assumes ti: "api_getThreadInfo api threadId = (terr, Some d)"
      and ui: "api_getUserInfo api (participantIDs d) = (uerr, userData)"
  shows "(\<exists>w'. \<forall>cb. updateGroupInfo e threadId message cb api w = w') \<or>
         (\<exists>err w'. \<forall>cb. updateGroupInfo e threadId message cb api w = cb err None w') \<or>
         (\<exists>err info w'.
            (\<forall>cb. updateGroupInfo e threadId message cb api w = cb err (Some info) w') \<and>
            refresh_result (bot_id (cfg e)) d uerr userData (stored_record w threadId) (heap w' info) \<and>
            (err = None \<longrightarrow> map_of (stored w') threadId = Some (json_obj (heap w' info))))"
proof -
  define w0 where "w0 = snd (next_outcome w)"
  define existingInfo where
    "existingInfo = (case map_of (stored w) threadId of Some g \<Rightarrow> Some (next_ref w) | None \<Rightarrow> None)"
  define wa where
    "wa = (case map_of (stored w) threadId of Some g \<Rightarrow> snd (alloc g w0) | None \<Rightarrow> w0)"
  define wa' where "wa' = snd (next_outcome wa)"
  define ownerData where
    "ownerData = (case map_of (stored w) (owner_id (cfg e)) of Some g \<Rightarrow> Some (next_ref wa) | None \<Rightarrow> None)"
  define wb where
    "wb = (case map_of (stored w) (owner_id (cfg e)) of Some g \<Rightarrow> snd (alloc g wa') | None \<Rightarrow> wa')"
  define ssm where "ssm = (\<not> dbFailSilently (cfg e) \<or> ownerData \<noteq> None)"
  define w1 where
    "w1 = (if existingInfo = None then
             log (ApiMuteThread threadId)
               (if ssm then
                  log (ApiChangeNickname (bot_short (cfg e)) threadId (bot_id (cfg e)))
                    (sendMessage (gapi e) (JStr (greeting (cfg e))) threadId (\<lambda>_ _ w. w) None wb)
                else wb)
           else wb)"
  have wa: "stored wa = stored w" "fst (next_outcome wa) = fst (next_outcome w0)"
    by (auto simp: wa_def w0_def fst_next_outcome split: option.splits)
  show ?thesis
  proof (cases "fst (next_outcome w) = None \<and> fst (next_outcome w0) = None")
    case False
    let ?err = "(case mem_outcomes w of Some e1 # _ \<Rightarrow> Some e1 | _ \<Rightarrow> None)"
    have "\<forall>cb. updateGroupInfo e threadId message cb api w
            = cb ?err None (updateGroupInfo e threadId message (\<lambda>_ _ w. w) api w)"
      using False
      by (auto simp: updateGroupInfo_def getGroupInfo_unfold fst_next_outcome w0_def Let_def
            split: option.splits list.splits)
    then show ?thesis by blast
  next
    case True
    have unfold: "updateGroupInfo e threadId message cb api w
                  = threadInfoFound e api threadId message cb existingInfo ssm d w1" for cb
      using True wa ti
      by (auto simp: updateGroupInfo_def getGroupInfo_unfold Let_def existingInfo_def wa_def
            wa'_def ownerData_def wb_def ssm_def w1_def w0_def split: option.splits)
    have ex: "case existingInfo of
               Some r \<Rightarrow> r < next_ref w1 \<and> heap w1 r = stored_record w threadId
             | None \<Rightarrow> stored_record w threadId = []"
    proof (cases "map_of (stored w) threadId")
      case None
      then show ?thesis by (simp add: existingInfo_def stored_record_def)
    next
      case (Some g)
      then have "w1 = wb" "existingInfo = Some (next_ref w)"
        by (simp_all add: w1_def existingInfo_def)
      moreover have "next_ref w < next_ref wb \<and> heap wb (next_ref w) = g"
        using Some by (auto simp: wb_def wa'_def wa_def w0_def split: option.splits)
      ultimately show ?thesis using Some by (simp add: stored_record_def)
    qed
    from threadInfoFound_any [OF ui ex, of e threadId message ssm]
    show ?thesis unfolding unfold by blast
  qed
qed

text \<open>
  C1, as the code has it. The provider gives the thread data \<open>d\<close>, and \<^verbatim>\<open>getUserInfo\<close>
  answers with \<open>uerr\<close> and the users. Whatever the cache answers, a run of
  \<^verbatim>\<open>updateGroupInfo\<close> ends in one of three ways: the callback is not called, it is called
  without a record, or it is called with the record. In that record, when the users were
  fetched, \<open>members\<close> and \<open>names\<close> are rebuilt from the fetched users other than the bot, so
  the id of the bot is absent from both; when the fetch of the users failed, \<open>members\<close> and
  \<open>names\<close> are those of the stored record (absent in a new record), so the id of the bot is
  absent from them when it was absent before. \<open>admins\<close> is the list of the admin ids of the
  provider, as it is given. When the callback gets no error, what is stored for the thread is
  that record. When every operation of the cache succeeds, and the stored record, if there is
  one, has its \<open>aliases\<close> object in case the users are fetched, the run ends in the third way
  with no error.
\<close>

theorem updateGroupInfo_excludes_bot:
  assumes "api_getThreadInfo api threadId = (terr, Some d)"
      and "api_getUserInfo api (participantIDs d) = (uerr, userData)"
  shows "((\<exists>w'. \<forall>cb. updateGroupInfo e threadId message cb api w = w') \<or>
          (\<exists>err w'. \<forall>cb. updateGroupInfo e threadId message cb api w = cb err None w') \<or>
          (\<exists>err info w'.
             (\<forall>cb. updateGroupInfo e threadId message cb api w = cb err (Some info) w') \<and>
             refresh_result (bot_id (cfg e)) d uerr userData (stored_record w threadId) (heap w' info) \<and>
             (err = None \<longrightarrow> map_of (stored w') threadId = Some (json_obj (heap w' info))))) \<and>
         (mem_outcomes w = [] \<and>
          (\<forall>rec. uerr = None \<and> map_of (stored w) threadId = Some rec \<longrightarrow>
                   (\<exists>al. obj_get rec ''aliases'' = JObj al)) \<longrightarrow>
            (\<exists>info w'.
               (\<forall>cb. updateGroupInfo e threadId message cb api w = cb None (Some info) w') \<and>
               refresh_result (bot_id (cfg e)) d uerr userData (stored_record w threadId) (heap w' info) \<and>
               map_of (stored w') threadId = Some (json_obj (heap w' info))))"
proof (intro conjI impI)
  show "(\<exists>w'. \<forall>cb. updateGroupInfo e threadId message cb api w = w') \<or>
        (\<exists>err w'. \<forall>cb. updateGroupInfo e threadId message cb api w = cb err None w') \<or>
        (\<exists>err info w'.
           (\<forall>cb. updateGroupInfo e threadId message cb api w = cb err (Some info) w') \<and>
           refresh_result (bot_id (cfg e)) d uerr userData (stored_record w threadId) (heap w' info) \<and>
           (err = None \<longrightarrow> map_of (stored w') threadId = Some (json_obj (heap w' info))))"
    using assms by (rule updateGroupInfo_any)
next
  assume a: "mem_outcomes w = [] \<and>
             (\<forall>rec. uerr = None \<and> map_of (stored w) threadId = Some rec \<longrightarrow>
                      (\<exists>al. obj_get rec ''aliases'' = JObj al))"
  from a have mo: "mem_outcomes w = []" ..
  from a have al: "\<forall>rec. uerr = None \<and> map_of (stored w) threadId = Some rec \<longrightarrow>
                      (\<exists>al. obj_get rec ''aliases'' = JObj al)" ..
  from updateGroupInfo_run [OF mo assms al]
  show "\<exists>info w'.
          (\<forall>cb. updateGroupInfo e threadId message cb api w = cb None (Some info) w') \<and>
          refresh_result (bot_id (cfg e)) d uerr userData (stored_record w threadId) (heap w' info) \<and>
          map_of (stored w') threadId = Some (json_obj (heap w' info))" .
qed

theorem updateGroupInfo_excludes_bot_witness:
  "(mem_outcomes worldT = [] \<and>
    api_getThreadInfo api1 ''T'' = (None, Some data1) \<and>
    api_getUserInfo api1 (participantIDs data1)
      = (None, [(''100'', \<lparr>firstName = ''Bot''\<rparr>), (''7'', \<lparr>firstName = ''Ann''\<rparr>)]) \<and>
    map_of (stored worldT) ''T'' = Some recT \<and> obj_get recT ''aliases'' = JObj [] \<and>
    (\<exists>info w' members names.
       (\<forall>cb. updateGroupInfo env0 ''T'' JNull cb api1 worldT = cb None (Some info) w') \<and>
       obj_get (heap w' info) ''members'' = JObj members \<and>
       obj_get (heap w' info) ''names'' = JObj names \<and>
       map_of members ''ann'' = Some (JStr ''7'') \<and> dom (map_of members) = {''ann''} \<and>
       map_of names ''7'' = Some (JStr ''Ann'') \<and> dom (map_of names) = {''7''} \<and>
       JStr ''100'' \<notin> snd ` set members \<and> ''100'' \<notin> fst ` set names \<and>
       obj_get (heap w' info) ''admins'' = JArr [JStr ''100'', JStr ''7''] \<and>
       map_of (stored w') ''T'' = Some (json_obj (heap w' info)))) \<and>
   (mem_outcomes worldB = [] \<and>
    api_getThreadInfo api2 ''B'' = (None, Some data1) \<and>
    api_getUserInfo api2 (participantIDs data1) = (Some ''rate limited'', []) \<and>
    map_of (stored worldB) ''B'' = Some recB \<and>
    (\<exists>info w'.
       (\<forall>cb. updateGroupInfo env0 ''B'' JNull cb api2 worldB = cb None (Some info) w') \<and>
       obj_get (heap w' info) ''members'' = JObj [(''bot'', JStr ''100'')] \<and>
       obj_get (heap w' info) ''names'' = JObj [(''100'', JStr ''Bot'')] \<and>
       obj_get (heap w' info) ''admins'' = JArr [JStr ''100'', JStr ''7''] \<and>
       map_of (stored w') ''B'' = Some (json_obj (heap w' info))))"
proof -
  have b: "bot_id (cfg env0) = ''100''"
    by (simp add: env0_def config0_def)
  have h1: "mem_outcomes worldT = []"
    by (simp add: worldT_def world0_def)
  have h2: "api_getThreadInfo api1 ''T'' = (None, Some data1)"
    by (simp add: api1_def)
  have h3: "api_getUserInfo api1 (participantIDs data1)
     = (None, [(''100'', \<lparr>firstName = ''Bot''\<rparr>), (''7'', \<lparr>firstName = ''Ann''\<rparr>)])"
    by (simp add: api1_def)
  have h5: "map_of (stored worldT) ''T'' = Some recT \<and> obj_get recT ''aliases'' = JObj []"
    by (simp add: worldT_def world0_def stored_def recT_def obj_get_def)
  have h4: "mem_outcomes worldT = [] \<and>
            (\<forall>rec. (None :: err option) = None \<and> map_of (stored worldT) ''T'' = Some rec \<longrightarrow>
                     (\<exists>al. obj_get rec ''aliases'' = JObj al))"
    using h1 h5 by simp
  have adm: "(case adminIDs data1 of Some a \<Rightarrow> JArr (map (\<lambda>u. obj_get u ''id'') a) | None \<Rightarrow> JArr [])
               = JArr [JStr ''100'', JStr ''7'']"
    by (simp add: data1_def obj_get_def)
  from updateGroupInfo_excludes_bot [OF h2 h3, of env0 JNull worldT, THEN conjunct2, rule_format, OF h4]
  obtain info w' where r:
    "\<forall>cb. updateGroupInfo env0 ''T'' JNull cb api1 worldT = cb None (Some info) w'"
    "refresh_result ''100'' data1 None
       [(''100'', \<lparr>firstName = ''Bot''\<rparr>), (''7'', \<lparr>firstName = ''Ann''\<rparr>)]
       (stored_record worldT ''T'') (heap w' info)"
    "map_of (stored w') ''T'' = Some (json_obj (heap w' info))"
    unfolding b by blast
  from r(2) have rb:
    "rebuilt ''100'' [(''100'', \<lparr>firstName = ''Bot''\<rparr>), (''7'', \<lparr>firstName = ''Ann''\<rparr>)] (heap w' info)"
    "obj_get (heap w' info) ''admins'' = JArr [JStr ''100'', JStr ''7'']"
    unfolding refresh_result_def adm by simp_all
  from rb(1) obtain members names where mn:
    "obj_get (heap w' info) ''members'' = JObj members" "obj_get (heap w' info) ''names'' = JObj names"
    "map_of names = map_of [(''7'', JStr ''Ann'')]"
    "map_of members = map_of [(''ann'', JStr ''7'')]"
    "JStr ''100'' \<notin> snd ` set members" "''100'' \<notin> fst ` set names"
    unfolding rebuilt_def
    by (auto simp: toLowerCase_def to_lower_def)
  have first: "\<exists>info w' members names.
       (\<forall>cb. updateGroupInfo env0 ''T'' JNull cb api1 worldT = cb None (Some info) w') \<and>
       obj_get (heap w' info) ''members'' = JObj members \<and>
       obj_get (heap w' info) ''names'' = JObj names \<and>
       map_of members ''ann'' = Some (JStr ''7'') \<and> dom (map_of members) = {''ann''} \<and>
       map_of names ''7'' = Some (JStr ''Ann'') \<and> dom (map_of names) = {''7''} \<and>
       JStr ''100'' \<notin> snd ` set members \<and> ''100'' \<notin> fst ` set names \<and>
       obj_get (heap w' info) ''admins'' = JArr [JStr ''100'', JStr ''7''] \<and>
       map_of (stored w') ''T'' = Some (json_obj (heap w' info))"
    using r(1,3) mn(1,2,5,6) rb(2) by (intro exI [of _ info] exI [of _ w'] exI [of _ members] exI [of _ names])
      (simp add: mn(3,4))
  have g1: "mem_outcomes worldB = []"
    by (simp add: worldB_def world0_def)
  have g2: "api_getThreadInfo api2 ''B'' = (None, Some data1)"
    by (simp add: api2_def api1_def)
  have g3: "api_getUserInfo api2 (participantIDs data1) = (Some ''rate limited'', [])"
    by (simp add: api2_def)
  have g5: "map_of (stored worldB) ''B'' = Some recB"
    by (simp add: worldB_def world0_def stored_def)
  have g4: "mem_outcomes worldB = [] \<and>
            (\<forall>rec. Some ''rate limited'' = (None :: err option) \<and> map_of (stored worldB) ''B'' = Some rec \<longrightarrow>
                     (\<exists>al. obj_get rec ''aliases'' = JObj al))"
    using g1 by simp
  from updateGroupInfo_excludes_bot [OF g2 g3, of env0 JNull worldB, THEN conjunct2, rule_format, OF g4]
  obtain info2 w2 where q:
    "\<forall>cb. updateGroupInfo env0 ''B'' JNull cb api2 worldB = cb None (Some info2) w2"
    "refresh_result ''100'' data1 (Some ''rate limited'') [] (stored_record worldB ''B'') (heap w2 info2)"
    "map_of (stored w2) ''B'' = Some (json_obj (heap w2 info2))"
    unfolding b by blast
  have second: "\<exists>info w'.
       (\<forall>cb. updateGroupInfo env0 ''B'' JNull cb api2 worldB = cb None (Some info) w') \<and>
       obj_get (heap w' info) ''members'' = JObj [(''bot'', JStr ''100'')] \<and>
       obj_get (heap w' info) ''names'' = JObj [(''100'', JStr ''Bot'')] \<and>
       obj_get (heap w' info) ''admins'' = JArr [JStr ''100'', JStr ''7''] \<and>
       map_of (stored w') ''B'' = Some (json_obj (heap w' info))"
    using q(1,3) q(2) [unfolded refresh_result_def adm]
    by (intro exI [of _ info2] exI [of _ w2])
       (simp add: stored_record_def g5, simp add: recB_def obj_get_def)
  from h1 h2 h3 h5 first g1 g2 g3 g5 second show ?thesis by blast
qed

lemma refresh_recT:
  "refreshMembers env0 [(''100'', \<lparr>firstName = ''Bot''\<rparr>), (''7'', \<lparr>firstName = ''Ann''\<rparr>)]
     (mergeThreadData config0 ''T'' JNull data1 False recT) = Inr recT_refreshed"
  by (simp add: mergeThreadData_def refreshMembers_def assign_def obj_set_def obj_get_def data1_def
        config0_def env0_def recT_def recT_refreshed_def toLowerCase_def to_lower_def join_def Let_def)

lemma json_obj_recT_refreshed: "json_obj recT_refreshed = recT_refreshed"
  by (simp add: json_obj_def recT_refreshed_def partyEvents_def)

text \<open>
  C1, as the claim has it, fails for \<open>admins\<close>: the bot has the id \<^verbatim>\<open>100\<close> and is an admin of
  thread \<^verbatim>\<open>T\<close>. The refresh calls back with no error, the record is stored, and its \<open>admins\<close>
  holds \<^verbatim>\<open>100\<close>.
\<close>

theorem updateGroupInfo_bot_admin_counterexample:
  "bot_id (cfg env0) = ''100'' \<and>
   (\<forall>cb. updateGroupInfo env0 ''T'' JNull cb api1 worldT
      = cb None (Some 1)
          (worldT\<lparr>heap := (heap worldT)(1 := recT_refreshed), next_ref := 2,
                  groups_blob := Some [(''T'', recT_refreshed)]\<rparr>)) \<and>
   obj_get recT_refreshed ''admins'' = JArr [JStr ''100'', JStr ''7'']"
proof -
  have c: "cfg env0 = config0" "owner_id config0 = ''900''" "bot_id config0 = ''100''"
    by (simp_all add: env0_def config0_def)
  have a: "api_getThreadInfo api1 ''T'' = (None, Some data1)"
          "api_getUserInfo api1 (participantIDs data1)
             = (None, [(''100'', \<lparr>firstName = ''Bot''\<rparr>), (''7'', \<lparr>firstName = ''Ann''\<rparr>)])"
    by (simp_all add: api1_def)
  have w: "mem_outcomes worldT = []" "stored worldT = [(''T'', recT)]" "next_ref worldT = 1"
    by (simp_all add: worldT_def world0_def stored_def)
  have t: "js_key (obj_get recT_refreshed ''threadId'') = ''T''"
    by (simp add: recT_refreshed_def obj_get_def)
  have "updateGroupInfo env0 ''T'' JNull cb api1 worldT
      = cb None (Some 1)
          (worldT\<lparr>heap := (heap worldT)(1 := recT_refreshed), next_ref := 2,
                  groups_blob := Some [(''T'', recT_refreshed)]\<rparr>)" for cb
    by (simp add: updateGroupInfo_def getGroupInfo_ok c a w threadInfoFound_def refresh_recT
          setGroupInfo_ok threadId_of_def t json_obj_recT_refreshed Let_def)
       (simp add: worldT_def world0_def alloc_def numeral_2_eq_2)
  then show ?thesis
    by (simp add: c) (simp add: recT_refreshed_def obj_get_def)
qed

section \<open>Properties of event creation\<close>

text \<open>
  C7, as the code has it. The normalised title is a key of \<open>events\<close> and the entry is an event
  record. Then \<^verbatim>\<open>addEvent\<close> does what \<^verbatim>\<open>sendError\<close> does with the message that the event
  exists: the record and its events are unchanged, nothing is written to the cache by the call,
  and the error message goes to the provider when there is one. No update of \<open>events\<close> is asked
  for. The only thing that may be left pending is the timer of the message wrapper for a copy of
  the stored record of the thread with \<^verbatim>\<open>lastBotMessageID\<close> set, whose events are those stored.
\<close>

theorem addEvent_duplicate_title:
  assumes "obj_get (heap w groupInfo) ''events'' = JObj events"
      and "map_of events (toLowerCase (trim title)) = Some (JObj ev)"
      and "groupInfo < next_ref w"
  shows "let msg = ''An event already exists called \"'' @ title
                     @ ''\". Please delete it if you wish to make a new one.'';
             w' = addEvent e title at sender groupInfo threadId w
         in w' = sendError (gapi e) msg threadId w \<and>
            heap w' groupInfo = heap w groupInfo \<and> groups_blob w' = groups_blob w \<and> kv w' = kv w \<and>
            (threadId \<noteq> [] \<and> api_sendMessage (gapi e) (JStr (''Error: '' @ msg)) threadId None \<noteq> Throws \<longrightarrow>
               trace w' = trace w @ [ApiSendMessage (JStr (''Error: '' @ msg)) threadId None]) \<and>
            (timers w' = timers w \<or>
             (\<exists>mi rec. api_sendMessage (gapi e) (JStr (''Error: '' @ msg)) threadId None = Sends mi \<and>
                map_of (stored w) threadId = Some rec \<and>
                timers w' = timers w @ [PersistProperty (next_ref w) Default] \<and>
                heap w' (next_ref w) = obj_set ''lastBotMessageID'' (obj_get mi ''messageID'') rec \<and>
                obj_get (heap w' (next_ref w)) ''events'' = obj_get rec ''events''))"
proof -
  let ?msg = "''An event already exists called \"'' @ title
                     @ ''\". Please delete it if you wish to make a new one.''"
  have eq: "addEvent e title at sender groupInfo threadId w = sendError (gapi e) ?msg threadId w"
    using assms(1,2) by (simp add: addEvent_def obj_get_def Let_def)
  obtain w' where w':
    "sendMessage (gapi e) (JStr (''Error: '' @ ?msg)) threadId (\<lambda>_ _ w. w) None w = w'"
    "groups_blob w' = groups_blob w" "kv w' = kv w" "\<forall>a < next_ref w. heap w' a = heap w a"
    "threadId \<noteq> [] \<and> truthy (JStr (''Error: '' @ ?msg)) \<and> api_sendMessage (gapi e) (JStr (''Error: '' @ ?msg)) threadId None \<noteq> Throws \<longrightarrow>
         trace w' = trace w @ [ApiSendMessage (JStr (''Error: '' @ ?msg)) threadId None]"
    "(timers w' = timers w \<and> lockedThreads w' = lockedThreads w) \<or>
       (\<exists>mi rec. api_sendMessage (gapi e) (JStr (''Error: '' @ ?msg)) threadId None = Sends mi \<and> map_of (stored w) threadId = Some rec \<and>
          timers w' = timers w @ [PersistProperty (next_ref w) Default] \<and>
          heap w' (next_ref w) = obj_set ''lastBotMessageID'' (obj_get mi ''messageID'') rec)"
    using sendMessage_default_effect [of "gapi e" "JStr (''Error: '' @ ?msg)" threadId None w] by blast
  have se: "sendError (gapi e) ?msg threadId w = w'"
    using w'(1) by (simp add: sendError_def)
  show ?thesis
    unfolding Let_def eq se
    using w'(2-6) assms(3) by (auto simp: obj_get_set_other)
qed

lemma key_party: "toLowerCase (trim '' Party '') = ''party''"
  by (simp add: toLowerCase_def trim_def to_lower_def is_ws_def)

lemma recT_events: "obj_get (heap worldT 0) ''events'' = JObj partyEvents"
  by (simp add: worldT_def world0_def recT_def obj_get_def partyEvents_def)

theorem addEvent_duplicate_title_witness:
  "obj_get (heap worldT 0) ''events'' = JObj partyEvents \<and>
   map_of partyEvents (toLowerCase (trim '' Party ''))
     = Some (JObj [(''type'', JStr ''event''), (''title'', JStr ''Party''), (''owner'', JStr ''7'')]) \<and>
   (0::nat) < next_ref worldT \<and>
   heap (addEvent env0 '' Party '' ''tomorrow'' (JStr ''8'') 0 ''T'' worldT) 0 = recT \<and>
   groups_blob (addEvent env0 '' Party '' ''tomorrow'' (JStr ''8'') 0 ''T'' worldT) = Some [(''T'', recT)]"
proof -
  have h1: "obj_get (heap worldT 0) ''events'' = JObj partyEvents"
    by (rule recT_events)
  have h2: "map_of partyEvents (toLowerCase (trim '' Party ''))
     = Some (JObj [(''type'', JStr ''event''), (''title'', JStr ''Party''), (''owner'', JStr ''7'')])"
    by (simp add: key_party partyEvents_def)
  have h3: "(0::nat) < next_ref worldT"
    by (simp add: worldT_def world0_def)
  note r = addEvent_duplicate_title [OF h1 h2 h3, of env0 "''tomorrow''" "JStr ''8''" "''T''",
      unfolded Let_def, THEN conjunct2]
  have "heap worldT 0 = recT" "groups_blob worldT = Some [(''T'', recT)]"
    by (simp_all add: worldT_def world0_def)
  with h1 h2 h3 r show ?thesis by simp
qed

text \<open>
  C7, as the claim has it, fails where it says that nothing is persisted: thread \<^verbatim>\<open>T\<close> has the
  event \<^verbatim>\<open>party\<close>, and \<^verbatim>\<open>addEvent\<close> is called with the title \<^verbatim>\<open>" Party "\<close>. The error message
  is sent, the wrapper notes its id, and when the timer fires the stored record of \<^verbatim>\<open>T\<close> is
  written again, now with \<^verbatim>\<open>lastBotMessageID\<close>.
\<close>

theorem addEvent_duplicate_counterexample:
  "obj_get (heap worldT 0) ''events'' = JObj partyEvents \<and>
   map_of partyEvents (toLowerCase (trim '' Party '')) \<noteq> None \<and>
   groups_blob worldT = Some [(''T'', recT)] \<and>
   groups_blob (run_timer (addEvent env0 '' Party '' ''tomorrow'' (JStr ''8'') 0 ''T'' worldT))
     = Some [(''T'', recT @ [(''lastBotMessageID'', JStr ''m1'')])]"
proof -
  have "addEvent env0 '' Party '' ''tomorrow'' (JStr ''8'') 0 ''T'' worldT
        = worldT\<lparr>trace := [ApiSendMessage
                   (JStr (''Error: An event already exists called \" Party \". ''
                          @ ''Please delete it if you wish to make a new one.'')) ''T'' None],
             heap := (heap worldT)(1 := recT @ [(''lastBotMessageID'', JStr ''m1'')]),
             next_ref := 2, lockedThreads := [JStr ''T''], timers := [PersistProperty 1 Default]\<rparr>"
    by (simp add: addEvent_def key_party sendError_def sendMessage_def
          env0_def api0_def getGroupInfo_unfold fst_next_outcome next_outcome_def stored_def alloc_def
          log_def setGroupProperty_def threadId_of_def obj_set_def Let_def
          worldT_def world0_def recT_def partyEvents_def obj_get_def)
  then show ?thesis
    by (simp add: recT_events key_party)
       (simp add: partyEvents_def run_timer_def persistProperty_def setGroupInfo_def getGroupData_def mem_get_groups_def
          mem_set_groups_def next_outcome_def threadId_of_def invoke_def worldT_def world0_def recT_def obj_get_def json_obj_def)
qed

end
